theory Spec2Isabelle
  imports Main "HOL-Library.Word"
begin

unbundle bit_operations_syntax

section \<open>Nullable columns (Columns/ColumnNullable.h)\<close>

subsection \<open>Data model\<close>

text \<open>
  \<^verbatim>\<open>using NullMap = ColumnUInt8::Container;\<close>
  The null map is a byte-per-row vector: byte 0 is "not null", any other byte is "null".
\<close>

type_synonym UInt8 = "8 word"
type_synonym UInt64 = "64 word"
type_synonym NullMap = "UInt8 list"

text \<open>
  Modelled from the spec: the nested column is an \<^verbatim>\<open>IColumn\<close>, whose declaration
  (Columns/IColumn.h) is not part of the sources. The spec describes it as the Value
  Store, which "holds the actual row values, contiguous and ordered" and is "oblivious to
  nullability". It is the list of its row values; its \<^verbatim>\<open>size()\<close> is the length of the
  list and its \<^verbatim>\<open>insertDefault()\<close> appends the default value of the value type. The
  other virtual methods of the nested column that the wrapper calls
  (\<^verbatim>\<open>getBool\<close>, \<^verbatim>\<open>get64\<close>, \<^verbatim>\<open>getDataAt\<close>, \<^verbatim>\<open>structureEquals\<close>, \<^verbatim>\<open>compareAt\<close>, the
  arena codec) are parameters of the functions below.
\<close>

type_synonym 'v ValueStore = "'v list"

definition nested_size :: "'v ValueStore \<Rightarrow> nat" where
  "nested_size xs = length xs"

definition nested_insertDefault :: "'v \<Rightarrow> 'v ValueStore \<Rightarrow> 'v ValueStore" where
  "nested_insertDefault dflt xs = xs @ [dflt]"

text \<open>
  \<^verbatim>\<open>class ColumnNullable\<close> with its two private members
  \<^verbatim>\<open>WrappedPtr nested_column; WrappedPtr null_map;\<close>. The null map is always read through
  \<^verbatim>\<open>getNullMapData()\<close>, so the field holds the byte container directly.
\<close>

record 'v ColumnNullable =
  nested_column :: "'v ValueStore"
  null_map :: NullMap

text \<open>
  An arbitrary column, as far as \<^verbatim>\<open>typeid_cast<const ColumnNullable *>\<close> can tell columns
  apart: either a nullable wrapper or some other column.
\<close>

datatype 'v IColumn =
    NotNullable "'v ValueStore"
  | Nullable "'v ColumnNullable"

fun typeid_cast_ColumnNullable :: "'v IColumn \<Rightarrow> 'v ColumnNullable option" where
  "typeid_cast_ColumnNullable (Nullable c) = Some c"
| "typeid_cast_ColumnNullable (NotNullable _) = None"

datatype error = SizeMismatch | Inconsistent | OutOfRange | BadCast

text \<open>
  \<^verbatim>\<open>operator[]\<close> of the byte container does no range check; a read past the end is
  undefined behaviour in the source and is the value \<open>None\<close> here.
\<close>

definition element_at :: "'a list \<Rightarrow> nat \<Rightarrow> 'a option" where
  "element_at xs n = (if n < length xs then Some (xs ! n) else None)"

subsection \<open>Operations defined in the header\<close>

text \<open>\<^verbatim>\<open>size_t size() const override { return nested_column->size(); }\<close>\<close>

definition size_col :: "'v ColumnNullable \<Rightarrow> nat" where
  "size_col c = nested_size (nested_column c)"

text \<open>
  \<^verbatim>\<open>bool isNullAt(size_t n) const override
    { return assert_cast<const ColumnUInt8 &>(*null_map).getData()[n] != 0; }\<close>
\<close>

definition isNullAt :: "'v ColumnNullable \<Rightarrow> nat \<Rightarrow> bool option" where
  "isNullAt c n = map_option (\<lambda>b. b \<noteq> 0) (element_at (null_map c) n)"

text \<open>
  \<^verbatim>\<open>bool getBool(size_t n) const override
    { return isNullAt(n) ? false : nested_column->getBool(n); }\<close>
\<close>

definition getBool ::
  "('v ValueStore \<Rightarrow> nat \<Rightarrow> bool) \<Rightarrow> 'v ColumnNullable \<Rightarrow> nat \<Rightarrow> bool option" where
  "getBool nested_getBool c n =
     (case isNullAt c n of
        None \<Rightarrow> None
      | Some is_null \<Rightarrow> Some (if is_null then False else nested_getBool (nested_column c) n))"

text \<open>\<^verbatim>\<open>UInt64 get64(size_t n) const override { return nested_column->get64(n); }\<close>\<close>

definition get64 ::
  "('v ValueStore \<Rightarrow> nat \<Rightarrow> UInt64) \<Rightarrow> 'v ColumnNullable \<Rightarrow> nat \<Rightarrow> UInt64" where
  "get64 nested_get64 c n = nested_get64 (nested_column c) n"

text \<open>
  \<^verbatim>\<open>StringRef getDataAt(size_t n) const override
  {
      if (isNullAt(n))
          return EMPTY_STRING_REF;
      return getNestedColumn().getDataAt(n);
  }\<close>
  The constant \<^verbatim>\<open>EMPTY_STRING_REF\<close> and the type \<^verbatim>\<open>StringRef\<close> are declared outside the
  sources: the sentinel is a parameter, the type of references a type variable.
\<close>

definition getDataAt ::
  "'r \<Rightarrow> ('v ValueStore \<Rightarrow> nat \<Rightarrow> 'r) \<Rightarrow> 'v ColumnNullable \<Rightarrow> nat \<Rightarrow> 'r option" where
  "getDataAt EMPTY_STRING_REF nested_getDataAt c n =
     (case isNullAt c n of
        None \<Rightarrow> None
      | Some is_null \<Rightarrow>
          Some (if is_null then EMPTY_STRING_REF else nested_getDataAt (nested_column c) n))"

text \<open>
  \<^verbatim>\<open>void insertDefault() override
  {
      getNestedColumn().insertDefault();
      getNullMapData().push_back(1);
  }\<close>
\<close>

definition insertDefault :: "'v \<Rightarrow> 'v ColumnNullable \<Rightarrow> 'v ColumnNullable" where
  "insertDefault dflt c =
     c\<lparr>nested_column := nested_insertDefault dflt (nested_column c),
       null_map := null_map c @ [1]\<rparr>"

text \<open>
  \<^verbatim>\<open>bool structureEquals(const IColumn & rhs) const override
  {
      if (auto rhs_nullable = typeid_cast<const ColumnNullable *>(&rhs))
          return nested_column->structureEquals(*rhs_nullable->nested_column);
      return false;
  }\<close>
\<close>

definition structureEquals ::
  "('v ValueStore \<Rightarrow> 'v ValueStore \<Rightarrow> bool) \<Rightarrow> 'v ColumnNullable \<Rightarrow> 'v IColumn \<Rightarrow> bool" where
  "structureEquals nested_structureEquals c rhs =
     (case typeid_cast_ColumnNullable rhs of
        Some rhs_nullable \<Rightarrow>
          nested_structureEquals (nested_column c) (nested_column rhs_nullable)
      | None \<Rightarrow> False)"

text \<open>
  \<^verbatim>\<open>void forEachSubcolumn(ColumnCallback callback) override
  {
      callback(nested_column);
      callback(null_map);
  }\<close>
  \<^verbatim>\<open>ColumnCallback\<close> is declared outside the sources: the visitor receives the handle of a
  sub-column and may put another column behind it. A sub-column is the nested store or the
  byte column of the null map. The value type of the nested store is fixed and the null map
  is read through \<^verbatim>\<open>assert_cast<ColumnUInt8 &>\<close>, so a visitor that leaves a column of the
  other kind behind a handle is the error \<open>BadCast\<close>.
\<close>

datatype 'v subcolumn = NestedColumn "'v ValueStore" | NullMapColumn NullMap

fun subcolumn_size :: "'v subcolumn \<Rightarrow> nat" where
  "subcolumn_size (NestedColumn xs) = nested_size xs"
| "subcolumn_size (NullMapColumn bs) = length bs"

definition forEachSubcolumn ::
  "('v subcolumn \<Rightarrow> 'v subcolumn) \<Rightarrow> 'v ColumnNullable \<Rightarrow> error + 'v ColumnNullable" where
  "forEachSubcolumn callback c =
     (case callback (NestedColumn (nested_column c)) of
        NullMapColumn _ \<Rightarrow> Inl BadCast
      | NestedColumn nested' \<Rightarrow>
          (case callback (NullMapColumn (null_map c)) of
             NestedColumn _ \<Rightarrow> Inl BadCast
           | NullMapColumn null_map' \<Rightarrow>
               Inr \<lparr>nested_column = nested', null_map = null_map'\<rparr>))"

text \<open>
  Modelled from the spec: \<^verbatim>\<open>checkConsistency()\<close> is declared in the header ("Check that
  size of null map equals to size of nested column") and defined outside the sources. The
  spec: "explicit invariant check (\<open>len(nested) == len(null_map)\<close>) ... fails with a
  consistency error if violated."
\<close>

definition checkConsistency :: "'v ColumnNullable \<Rightarrow> error + unit" where
  "checkConsistency c =
     (if length (null_map c) \<noteq> nested_size (nested_column c) then Inl Inconsistent
      else Inr ())"

text \<open>The column with no rows.\<close>

definition empty_column :: "'v ColumnNullable" where
  "empty_column = \<lparr>nested_column = [], null_map = []\<rparr>"

section \<open>Operations declared in the header and defined outside the sources\<close>

text \<open>
  The header declares the operations of this section; their bodies are in
  Columns/ColumnNullable.cpp, which is not part of the sources. Each definition follows
  the words of the specification, which it quotes.
\<close>

subsection \<open>Applying an external null map\<close>

text \<open>The logical negation of a byte: a zero byte becomes 1, any other byte becomes 0.\<close>

definition logical_not :: "UInt8 \<Rightarrow> UInt8" where
  "logical_not b = (if b = 0 then 1 else 0)"

text \<open>
  Modelled from the spec: the body of \<^verbatim>\<open>template <bool negative> void
  applyNullMapImpl(const ColumnUInt8 & map)\<close> is missing. The spec: "element-wise OR
  (respectively OR of the logical negation) of an external byte map into this column's null
  map ... Error condition: sizes must match; mismatched length is a contract violation
  (fails with a size-mismatch error)"; "never silently truncates or pads".
\<close>

definition applyNullMapImpl ::
  "bool \<Rightarrow> NullMap \<Rightarrow> 'v ColumnNullable \<Rightarrow> error + 'v ColumnNullable" where
  "applyNullMapImpl negative other c =
     (if length (null_map c) \<noteq> length other then Inl SizeMismatch
      else Inr (c\<lparr>null_map :=
                  map2 (\<lambda>a b. a OR (if negative then logical_not b else b)) (null_map c) other\<rparr>))"

definition applyNullMap :: "NullMap \<Rightarrow> 'v ColumnNullable \<Rightarrow> error + 'v ColumnNullable" where
  "applyNullMap other c = applyNullMapImpl False other c"

definition applyNegatedNullMap :: "NullMap \<Rightarrow> 'v ColumnNullable \<Rightarrow> error + 'v ColumnNullable" where
  "applyNegatedNullMap other c = applyNullMapImpl True other c"

subsection \<open>Comparison\<close>

text \<open>
  The header gives the hint and the result of a comparison the type \<^verbatim>\<open>int\<close>: a 32-bit
  word, read as a signed number by \<open>sint\<close>. The spec knows two hints, nulls-first and
  nulls-last; which \<^verbatim>\<open>int\<close> stands for which is declared outside the sources and is the
  parameter \<open>direction_of\<close> of the comparison.
\<close>

type_synonym Int32 = "32 word"

datatype NullDirection = NullsFirst | NullsLast

text \<open>
  Modelled from the spec: the body of \<^verbatim>\<open>compareAtImpl\<close> is missing. The spec: "three-way
  compare of row n (this column) against row m of \<open>rhs\<close> (also nullable). Policy: if both
  rows null \<rightarrow> equal (0). If exactly one is null \<rightarrow> the null row sorts according to
  \<open>null_direction_hint\<close> (a caller-supplied tie-break: nulls-first or nulls-last),
  independent of the underlying value type's natural order. If neither is null \<rightarrow> delegate
  to the nested value store's comparison." The sign of the result is the one of the spec's
  Scenario 2, "column \<open>[1, NULL, 3]\<close>, compare \<open>(row=0, row=1, nulls-first)\<close> \<rightarrow> row 1
  (null) is lesser \<rightarrow> result negative": the result is negative when the row of \<open>rhs\<close> is the
  lesser one, and, the comparison being three-way, positive when the row of this column is.
  \<open>nested_compare\<close> is the comparison of the nested store, with or without a collator.
\<close>

definition compareAtImpl ::
  "(Int32 \<Rightarrow> NullDirection)
     \<Rightarrow> ('v ValueStore \<Rightarrow> nat \<Rightarrow> nat \<Rightarrow> 'v ValueStore \<Rightarrow> Int32 \<Rightarrow> Int32)
     \<Rightarrow> 'v ColumnNullable \<Rightarrow> nat \<Rightarrow> nat \<Rightarrow> 'v ColumnNullable \<Rightarrow> Int32 \<Rightarrow> Int32 option" where
  "compareAtImpl direction_of nested_compare c n m rhs null_direction_hint =
     (case isNullAt c n of
        None \<Rightarrow> None
      | Some lval_is_null \<Rightarrow>
          (case isNullAt rhs m of
             None \<Rightarrow> None
           | Some rval_is_null \<Rightarrow>
               Some (if lval_is_null \<and> rval_is_null then 0
                     else if rval_is_null then
                       (case direction_of null_direction_hint of
                          NullsFirst \<Rightarrow> - 1
                        | NullsLast \<Rightarrow> 1)
                     else if lval_is_null then
                       (case direction_of null_direction_hint of
                          NullsFirst \<Rightarrow> 1
                        | NullsLast \<Rightarrow> - 1)
                     else nested_compare (nested_column c) n m (nested_column rhs)
                            null_direction_hint)))"

definition compareAt ::
  "(Int32 \<Rightarrow> NullDirection)
     \<Rightarrow> ('v ValueStore \<Rightarrow> nat \<Rightarrow> nat \<Rightarrow> 'v ValueStore \<Rightarrow> Int32 \<Rightarrow> Int32)
     \<Rightarrow> 'v ColumnNullable \<Rightarrow> nat \<Rightarrow> nat \<Rightarrow> 'v ColumnNullable \<Rightarrow> Int32 \<Rightarrow> Int32 option" where
  "compareAt direction_of nested_compareAt c n m rhs null_direction_hint =
     compareAtImpl direction_of nested_compareAt c n m rhs null_direction_hint"

subsection \<open>Serialization into an arena\<close>

text \<open>
  The arena is an append-only region of bytes; a position is an offset into it, and the
  reference that \<^verbatim>\<open>serializeValueIntoArena\<close> returns is the pair of the start of the written
  span and its size.
\<close>

type_synonym Arena = "UInt8 list"

text \<open>
  Modelled from the spec: the body of \<^verbatim>\<open>serializeValueIntoArena\<close> is missing. The spec:
  "writes a 1-byte null indicator, then \<emdash> only if non-null \<emdash> the nested store's own
  serialization of the value; returns a reference to the full written span".
  \<open>nested_serialize xs n\<close> is the bytes the nested store writes for its row \<open>n\<close>.
\<close>

definition serializeValueIntoArena ::
  "('v ValueStore \<Rightarrow> nat \<Rightarrow> UInt8 list) \<Rightarrow> 'v ColumnNullable \<Rightarrow> nat \<Rightarrow> Arena
     \<Rightarrow> error + ((nat \<times> nat) \<times> Arena)" where
  "serializeValueIntoArena nested_serialize c n arena =
     (case element_at (null_map c) n of
        None \<Rightarrow> Inl OutOfRange
      | Some indicator \<Rightarrow>
          if indicator \<noteq> 0 then Inr ((length arena, 1), arena @ [indicator])
          else
            (let bytes = nested_serialize (nested_column c) n
             in Inr ((length arena, 1 + length bytes), arena @ [indicator] @ bytes)))"

text \<open>
  Modelled from the spec: the body of \<^verbatim>\<open>deserializeAndInsertFromArena\<close> is missing. The
  spec: "reads the indicator byte; if null, appends a default value and marks null;
  otherwise delegates to the nested store's decode and appends non-null. Returns the
  position immediately following the consumed bytes."
  \<open>nested_deserialize arena pos\<close> is the nested store's decoder: the value it appends and
  the position after the bytes it consumed, or \<open>None\<close> when it cannot decode.
\<close>

definition deserializeAndInsertFromArena ::
  "'v \<Rightarrow> (Arena \<Rightarrow> nat \<Rightarrow> ('v \<times> nat) option) \<Rightarrow> 'v ColumnNullable \<Rightarrow> Arena \<Rightarrow> nat
     \<Rightarrow> error + ('v ColumnNullable \<times> nat)" where
  "deserializeAndInsertFromArena dflt nested_deserialize c arena pos =
     (case element_at arena pos of
        None \<Rightarrow> Inl OutOfRange
      | Some indicator \<Rightarrow>
          if indicator \<noteq> 0 then
            Inr (c\<lparr>nested_column := nested_insertDefault dflt (nested_column c),
                   null_map := null_map c @ [1]\<rparr>, pos + 1)
          else
            (case nested_deserialize arena (pos + 1) of
               None \<Rightarrow> Inl OutOfRange
             | Some (v, pos') \<Rightarrow>
                 Inr (c\<lparr>nested_column := nested_column c @ [v],
                        null_map := null_map c @ [0]\<rparr>, pos')))"

subsection \<open>Operations that build a new column\<close>

text \<open>
  Modelled from the spec: the body of \<^verbatim>\<open>filter\<close> is missing. The spec: "keep rows where
  \<open>mask[row]\<close> is truthy; \<open>size_hint\<close> is an optional optimization (preallocate result
  capacity) and must not affect result correctness even if wrong"; the transformation
  "must apply identically to \<open>nested\<close> and \<open>null_map\<close>". \<open>filter_rows\<close> is the loop over
  the rows of one vector; a mask of another length than the column is a size mismatch.
\<close>

fun filter_rows :: "UInt8 list \<Rightarrow> 'a list \<Rightarrow> 'a list" where
  "filter_rows (f # filt) (x # xs) =
     (if f \<noteq> 0 then x # filter_rows filt xs else filter_rows filt xs)"
| "filter_rows _ _ = []"

definition filter_col ::
  "UInt8 list \<Rightarrow> int \<Rightarrow> 'v ColumnNullable \<Rightarrow> error + 'v ColumnNullable" where
  "filter_col filt result_size_hint c =
     (if length filt \<noteq> size_col c \<or> length filt \<noteq> length (null_map c) then Inl SizeMismatch
      else Inr \<lparr>nested_column = filter_rows filt (nested_column c),
                null_map = filter_rows filt (null_map c)\<rparr>)"

text \<open>
  Modelled from the spec: the body of \<^verbatim>\<open>permute\<close> is missing. The spec: "reorder rows
  according to \<open>perm\<close>; if \<open>limit > 0\<close>, only the first \<open>limit\<close> destination rows need
  be populated"; a permutation is "an ordered sequence of row indices" and, as in
  Scenario 1, entry \<open>k\<close> of it names the source row of destination row \<open>k\<close>. A permutation
  shorter than the number of rows to produce is a size mismatch; an entry that is no row
  of the column is out of range.
\<close>

definition permute_rows :: "nat list \<Rightarrow> nat \<Rightarrow> 'a list \<Rightarrow> error + 'a list" where
  "permute_rows perm limit xs =
     (let lim = (if limit = 0 then length xs else min (length xs) limit)
      in if length perm < lim then Inl SizeMismatch
         else if \<not> list_all (\<lambda>i. i < length xs) (take lim perm) then Inl OutOfRange
         else Inr (map (\<lambda>i. xs ! i) (take lim perm)))"

definition permute ::
  "nat list \<Rightarrow> nat \<Rightarrow> 'v ColumnNullable \<Rightarrow> error + 'v ColumnNullable" where
  "permute perm limit c =
     (case permute_rows perm limit (nested_column c) of
        Inl e \<Rightarrow> Inl e
      | Inr nested' \<Rightarrow>
          (case permute_rows perm limit (null_map c) of
             Inl e \<Rightarrow> Inl e
           | Inr null_map' \<Rightarrow> Inr \<lparr>nested_column = nested', null_map = null_map'\<rparr>))"

text \<open>
  Modelled from the spec: the body of \<^verbatim>\<open>index\<close> is missing. The spec: "gather rows at
  the given (possibly repeating, possibly out-of-order) index positions"; as for
  \<^verbatim>\<open>permute\<close>, a limit above 0 asks for the first \<open>limit\<close> positions only. Fewer positions
  than the limit are a size mismatch; a position that is no row of the column is out of
  range.
\<close>

definition index_rows :: "nat list \<Rightarrow> nat \<Rightarrow> 'a list \<Rightarrow> error + 'a list" where
  "index_rows indexes limit xs =
     (let lim = (if limit = 0 then length indexes else limit)
      in if length indexes < lim then Inl SizeMismatch
         else if \<not> list_all (\<lambda>i. i < length xs) (take lim indexes) then Inl OutOfRange
         else Inr (map (\<lambda>i. xs ! i) (take lim indexes)))"

definition index_col ::
  "nat list \<Rightarrow> nat \<Rightarrow> 'v ColumnNullable \<Rightarrow> error + 'v ColumnNullable" where
  "index_col indexes limit c =
     (case index_rows indexes limit (nested_column c) of
        Inl e \<Rightarrow> Inl e
      | Inr nested' \<Rightarrow>
          (case index_rows indexes limit (null_map c) of
             Inl e \<Rightarrow> Inl e
           | Inr null_map' \<Rightarrow> Inr \<lparr>nested_column = nested', null_map = null_map'\<rparr>))"

text \<open>
  Modelled from the spec: the body of \<^verbatim>\<open>replicate\<close> is missing. The spec: "row i of the
  input is repeated \<open>offsets[i] - offsets[i-1]\<close> times in the output (prefix-sum-encoded
  repeat counts)", and Scenario 5: "\<open>replicate([0,2,3])\<close> (prefix-sum offsets) on 2-row
  column \<open>[A(null), B(5)]\<close> \<rightarrow> 3-row output \<open>[A,A,B]\<close>". The offsets are the prefix sums
  from the leading 0 on, one more than the column has rows, and each row is repeated by
  the difference of its offset to the one before. Offsets of another number, or offsets
  that decrease, are no prefix sums of repeat counts and are a size mismatch.
\<close>

fun replicate_rows :: "nat list \<Rightarrow> 'a list \<Rightarrow> 'a list" where
  "replicate_rows (prev_offset # off # offsets) (x # xs) =
     replicate (off - prev_offset) x @ replicate_rows (off # offsets) xs"
| "replicate_rows _ _ = []"

definition replicate_col ::
  "nat list \<Rightarrow> 'v ColumnNullable \<Rightarrow> error + 'v ColumnNullable" where
  "replicate_col offsets c =
     (if length offsets \<noteq> size_col c + 1 \<or> length offsets \<noteq> length (null_map c) + 1
         \<or> \<not> sorted offsets
      then Inl SizeMismatch
      else Inr \<lparr>nested_column = replicate_rows offsets (nested_column c),
                null_map = replicate_rows offsets (null_map c)\<rparr>)"

text \<open>
  Modelled from the spec: the header's \<^verbatim>\<open>scatter\<close> returns
  \<^verbatim>\<open>scatterImpl<ColumnNullable>(num_columns, selector)\<close>, and \<^verbatim>\<open>scatterImpl\<close>
  (Columns/IColumnImpl.h) is missing. The spec: "partitions rows into \<open>num_buckets\<close> new
  Nullable Columns according to \<open>selector[row]\<close> ... must preserve per-row null status in
  the destination bucket matching the source row". A selector of another length than the
  column is a size mismatch; a bucket id that is no bucket is out of range.
\<close>

fun scatter_rows :: "nat \<Rightarrow> nat list \<Rightarrow> 'a list \<Rightarrow> 'a list" where
  "scatter_rows bucket (s # selector) (x # xs) =
     (if s = bucket then x # scatter_rows bucket selector xs
      else scatter_rows bucket selector xs)"
| "scatter_rows _ _ _ = []"

definition scatter ::
  "nat \<Rightarrow> nat list \<Rightarrow> 'v ColumnNullable \<Rightarrow> error + 'v ColumnNullable list" where
  "scatter num_columns selector c =
     (if length selector \<noteq> size_col c \<or> length selector \<noteq> length (null_map c)
      then Inl SizeMismatch
      else if \<not> list_all (\<lambda>s. s < num_columns) selector then Inl OutOfRange
      else Inr (map (\<lambda>bucket.
                  \<lparr>nested_column = scatter_rows bucket selector (nested_column c),
                   null_map = scatter_rows bucket selector (null_map c)\<rparr>)
                [0..<num_columns]))"

text \<open>
  Modelled from the spec: the body of \<^verbatim>\<open>cloneResized\<close> is missing. The spec names it with
  the structural operations and the value store's "clone/resize" primitives: a copy of
  the first \<open>size\<close> rows, filled up to \<open>size\<close> rows with default rows, which for a
  nullable column are null ("default value of a nullable column is NULL").
\<close>

definition resize_rows :: "'a \<Rightarrow> nat \<Rightarrow> 'a list \<Rightarrow> 'a list" where
  "resize_rows filler new_size xs = take new_size xs @ replicate (new_size - length xs) filler"

definition cloneResized :: "'v \<Rightarrow> nat \<Rightarrow> 'v ColumnNullable \<Rightarrow> 'v ColumnNullable" where
  "cloneResized dflt new_size c =
     \<lparr>nested_column = resize_rows dflt new_size (nested_column c),
      null_map = resize_rows 1 new_size (null_map c)\<rparr>"

text \<open>
  Modelled from the spec: the body of \<^verbatim>\<open>compress\<close> is missing. The spec: "produce a
  storage-optimized copy". The copy holds the rows of the column.
\<close>

definition compress :: "'v ColumnNullable \<Rightarrow> 'v ColumnNullable" where
  "compress c = \<lparr>nested_column = nested_column c, null_map = null_map c\<rparr>"

subsection \<open>Operations that change the column\<close>

text \<open>
  Modelled from the spec: the body of \<^verbatim>\<open>insert(const Field & x)\<close> is missing. The spec
  lists it with the "append-style operations (insert, insertRange, insertDefault)": it
  appends one row, a null one (default value, byte 1) for the NULL field and the value
  with byte 0 otherwise.
\<close>

datatype 'v Field = Null | Value 'v

definition insert_col :: "'v \<Rightarrow> 'v Field \<Rightarrow> 'v ColumnNullable \<Rightarrow> 'v ColumnNullable" where
  "insert_col dflt x c =
     (case x of
        Null \<Rightarrow> c\<lparr>nested_column := nested_insertDefault dflt (nested_column c),
                  null_map := null_map c @ [1]\<rparr>
      | Value v \<Rightarrow> c\<lparr>nested_column := nested_column c @ [v],
                     null_map := null_map c @ [0]\<rparr>)"

text \<open>
  Modelled from the spec: the body of \<^verbatim>\<open>insertData\<close> is missing. The header: "Will insert
  null value if pos=nullptr". The spec: "a null pointer argument is the explicit
  null-insertion signal ...; non-null pointer content is forwarded to the nested store's
  raw-bytes insertion path". \<open>None\<close> is the null pointer; \<open>nested_insertData\<close> is the
  value the nested store appends for the bytes.
\<close>

definition insertData ::
  "'v \<Rightarrow> (UInt8 list \<Rightarrow> 'v) \<Rightarrow> UInt8 list option \<Rightarrow> 'v ColumnNullable \<Rightarrow> 'v ColumnNullable" where
  "insertData dflt nested_insertData pos c =
     (case pos of
        None \<Rightarrow> c\<lparr>nested_column := nested_insertDefault dflt (nested_column c),
                  null_map := null_map c @ [1]\<rparr>
      | Some bytes \<Rightarrow> c\<lparr>nested_column := nested_column c @ [nested_insertData bytes],
                        null_map := null_map c @ [0]\<rparr>)"

text \<open>
  Modelled from the spec: the bodies of \<^verbatim>\<open>insertFrom\<close>, \<^verbatim>\<open>insertRangeFrom\<close> and
  \<^verbatim>\<open>insertRangeSelective\<close> are missing. The spec has them as the "insert* family" of
  "append-style operations (insert, insertRange, insertDefault)" and says no more; by
  their declarations they append row \<open>n\<close> of the nullable column \<open>src\<close>, its rows
  \<open>start, ..., start + length - 1\<close>, and its rows
  \<open>selector[selector_start], ..., selector[selector_start + length - 1]\<close>, each with its
  byte of the null map of \<open>src\<close>. A row that \<open>src\<close> or the selector does not have is out
  of range.
\<close>

definition insertFrom ::
  "'v ColumnNullable \<Rightarrow> nat \<Rightarrow> 'v ColumnNullable \<Rightarrow> error + 'v ColumnNullable" where
  "insertFrom src n c =
     (case element_at (nested_column src) n of
        None \<Rightarrow> Inl OutOfRange
      | Some v \<Rightarrow>
          (case element_at (null_map src) n of
             None \<Rightarrow> Inl OutOfRange
           | Some b \<Rightarrow> Inr (c\<lparr>nested_column := nested_column c @ [v],
                               null_map := null_map c @ [b]\<rparr>)))"

definition insertRangeFrom ::
  "'v ColumnNullable \<Rightarrow> nat \<Rightarrow> nat \<Rightarrow> 'v ColumnNullable \<Rightarrow> error + 'v ColumnNullable" where
  "insertRangeFrom src start len c =
     (if size_col src < start + len \<or> length (null_map src) < start + len then Inl OutOfRange
      else Inr (c\<lparr>nested_column := nested_column c @ take len (drop start (nested_column src)),
                  null_map := null_map c @ take len (drop start (null_map src))\<rparr>))"

definition insertRangeSelective ::
  "'v ColumnNullable \<Rightarrow> nat list \<Rightarrow> nat \<Rightarrow> nat \<Rightarrow> 'v ColumnNullable
     \<Rightarrow> error + 'v ColumnNullable" where
  "insertRangeSelective src selector selector_start len c =
     (if length selector < selector_start + len then Inl OutOfRange
      else
        (let rows = take len (drop selector_start selector)
         in if \<not> list_all (\<lambda>i. i < size_col src \<and> i < length (null_map src)) rows
            then Inl OutOfRange
            else Inr (c\<lparr>nested_column := nested_column c @ map (\<lambda>i. nested_column src ! i) rows,
                        null_map := null_map c @ map (\<lambda>i. null_map src ! i) rows\<rparr>)))"

text \<open>
  Modelled from the spec: the bodies of \<^verbatim>\<open>insertFromNotNullable\<close>,
  \<^verbatim>\<open>insertRangeFromNotNullable\<close> and \<^verbatim>\<open>insertManyFromNotNullable\<close> are missing. The spec
  has them in the "insert* family" only; by their declarations they append, from a
  column \<open>src\<close> that is not nullable, row \<open>n\<close>, the rows \<open>start, ..., start + length - 1\<close>,
  and \<open>length\<close> copies of the row at \<open>position\<close>, every appended row not null (byte 0).
\<close>

definition insertFromNotNullable ::
  "'v ValueStore \<Rightarrow> nat \<Rightarrow> 'v ColumnNullable \<Rightarrow> error + 'v ColumnNullable" where
  "insertFromNotNullable src n c =
     (case element_at src n of
        None \<Rightarrow> Inl OutOfRange
      | Some v \<Rightarrow> Inr (c\<lparr>nested_column := nested_column c @ [v],
                          null_map := null_map c @ [0]\<rparr>))"

definition insertRangeFromNotNullable ::
  "'v ValueStore \<Rightarrow> nat \<Rightarrow> nat \<Rightarrow> 'v ColumnNullable \<Rightarrow> error + 'v ColumnNullable" where
  "insertRangeFromNotNullable src start len c =
     (if nested_size src < start + len then Inl OutOfRange
      else Inr (c\<lparr>nested_column := nested_column c @ take len (drop start src),
                  null_map := null_map c @ replicate len 0\<rparr>))"

definition insertManyFromNotNullable ::
  "'v ValueStore \<Rightarrow> nat \<Rightarrow> nat \<Rightarrow> 'v ColumnNullable \<Rightarrow> error + 'v ColumnNullable" where
  "insertManyFromNotNullable src position len c =
     (case element_at src position of
        None \<Rightarrow> Inl OutOfRange
      | Some v \<Rightarrow> Inr (c\<lparr>nested_column := nested_column c @ replicate len v,
                          null_map := null_map c @ replicate len 0\<rparr>))"

text \<open>
  Modelled from the spec: the body of \<^verbatim>\<open>popBack\<close> is missing and the spec does not
  describe it; by its declaration \<^verbatim>\<open>void popBack(size_t n)\<close> it removes the last \<open>n\<close>
  rows of the column, from the nested store and from the null map. More rows than a vector
  has are out of range.
\<close>

definition popBack :: "nat \<Rightarrow> 'v ColumnNullable \<Rightarrow> error + 'v ColumnNullable" where
  "popBack n c =
     (if size_col c < n \<or> length (null_map c) < n then Inl OutOfRange
      else Inr (c\<lparr>nested_column := take (length (nested_column c) - n) (nested_column c),
                  null_map := take (length (null_map c) - n) (null_map c)\<rparr>))"

text \<open>
  Modelled from the spec: the body of \<^verbatim>\<open>gather\<close> is missing, and so is the
  \<^verbatim>\<open>ColumnGathererStream\<close> it reads; the spec names "scatter/gather" only. The stream is
  the sequence of rows it delivers, each a source column and a row of it, and \<^verbatim>\<open>gather\<close>
  appends them in order as \<^verbatim>\<open>insertFrom\<close> does.
\<close>

fun gather ::
  "('v ColumnNullable \<times> nat) list \<Rightarrow> 'v ColumnNullable \<Rightarrow> error + 'v ColumnNullable" where
  "gather [] c = Inr c"
| "gather ((src, n) # gatherer_stream) c =
     (case insertFrom src n c of
        Inl e \<Rightarrow> Inl e
      | Inr c' \<Rightarrow> gather gatherer_stream c')"

text \<open>
  Modelled from the spec: the bodies of \<^verbatim>\<open>reserve\<close> and \<^verbatim>\<open>protect\<close> are missing. The
  spec names \<^verbatim>\<open>reserve\<close> with the structural operations and has \<^verbatim>\<open>protect\<close> "mark
  underlying memory read-only/pinned where supported": capacity and memory protection are
  no part of the rows, which both leave as they are.
\<close>

definition reserve :: "nat \<Rightarrow> 'v ColumnNullable \<Rightarrow> 'v ColumnNullable" where
  "reserve n c = c"

definition protect :: "'v ColumnNullable \<Rightarrow> 'v ColumnNullable" where
  "protect c = c"

text \<open>
  Modelled from the spec: the body of \<^verbatim>\<open>applyNullMap(const ColumnNullable & other)\<close> is
  missing. The header: "Apply the null byte map of a specified nullable column onto the
  null byte map of the current column by performing an element-wise OR between both byte
  maps."
\<close>

definition applyNullMap_of_column ::
  "'v ColumnNullable \<Rightarrow> 'v ColumnNullable \<Rightarrow> error + 'v ColumnNullable" where
  "applyNullMap_of_column other c = applyNullMap (null_map other) c"

subsection \<open>The public operations as a step function\<close>

text \<open>
  The public methods of the header that change the column or build a column from it, as
  values, so that a property can be stated for every sequence of them. A method that
  returns a new column continues with that column; \<open>Scatter\<close> continues with one of its
  buckets. The other public methods are \<^verbatim>\<open>const\<close> and return no nullable column, or
  hand out a reference and change nothing themselves. An operation that fails returns
  its error and no column: the column it was called on is as it was.
\<close>

datatype 'v operation =
    CloneResized nat
  | InsertData "UInt8 list option"
  | DeserializeAndInsertFromArena Arena nat
  | InsertRangeFrom "'v ColumnNullable" nat nat
  | InsertRangeSelective "'v ColumnNullable" "nat list" nat nat
  | Insert "'v Field"
  | InsertFrom "'v ColumnNullable" nat
  | InsertFromNotNullable "'v ValueStore" nat
  | InsertRangeFromNotNullable "'v ValueStore" nat nat
  | InsertManyFromNotNullable "'v ValueStore" nat nat
  | InsertDefault
  | PopBack nat
  | Filter "UInt8 list" int
  | Permute "nat list" nat
  | Index "nat list" nat
  | Reserve nat
  | Protect
  | Replicate "nat list"
  | Scatter nat "nat list" nat
  | Gather "('v ColumnNullable \<times> nat) list"
  | Compress
  | ForEachSubcolumn "'v subcolumn \<Rightarrow> 'v subcolumn"
  | ApplyNullMapOfColumn "'v ColumnNullable"
  | ApplyNullMap NullMap
  | ApplyNegatedNullMap NullMap

fun perform ::
  "'v \<Rightarrow> (Arena \<Rightarrow> nat \<Rightarrow> ('v \<times> nat) option) \<Rightarrow> (UInt8 list \<Rightarrow> 'v) \<Rightarrow> 'v operation
     \<Rightarrow> 'v ColumnNullable \<Rightarrow> error + 'v ColumnNullable" where
  "perform dflt dec ins (CloneResized new_size) c = Inr (cloneResized dflt new_size c)"
| "perform dflt dec ins (InsertData pos) c = Inr (insertData dflt ins pos c)"
| "perform dflt dec ins (DeserializeAndInsertFromArena arena pos) c =
     map_sum id fst (deserializeAndInsertFromArena dflt dec c arena pos)"
| "perform dflt dec ins (InsertRangeFrom src start len) c = insertRangeFrom src start len c"
| "perform dflt dec ins (InsertRangeSelective src selector selector_start len) c =
     insertRangeSelective src selector selector_start len c"
| "perform dflt dec ins (Insert x) c = Inr (insert_col dflt x c)"
| "perform dflt dec ins (InsertFrom src n) c = insertFrom src n c"
| "perform dflt dec ins (InsertFromNotNullable src n) c = insertFromNotNullable src n c"
| "perform dflt dec ins (InsertRangeFromNotNullable src start len) c =
     insertRangeFromNotNullable src start len c"
| "perform dflt dec ins (InsertManyFromNotNullable src position len) c =
     insertManyFromNotNullable src position len c"
| "perform dflt dec ins InsertDefault c = Inr (insertDefault dflt c)"
| "perform dflt dec ins (PopBack n) c = popBack n c"
| "perform dflt dec ins (Filter filt hint) c = filter_col filt hint c"
| "perform dflt dec ins (Permute perm limit) c = permute perm limit c"
| "perform dflt dec ins (Index indexes limit) c = index_col indexes limit c"
| "perform dflt dec ins (Reserve n) c = Inr (reserve n c)"
| "perform dflt dec ins Protect c = Inr (protect c)"
| "perform dflt dec ins (Replicate offsets) c = replicate_col offsets c"
| "perform dflt dec ins (Scatter num_columns selector bucket) c =
     (case scatter num_columns selector c of
        Inl e \<Rightarrow> Inl e
      | Inr buckets \<Rightarrow>
          (case element_at buckets bucket of
             None \<Rightarrow> Inl OutOfRange
           | Some c' \<Rightarrow> Inr c'))"
| "perform dflt dec ins (Gather gatherer_stream) c = gather gatherer_stream c"
| "perform dflt dec ins Compress c = Inr (compress c)"
| "perform dflt dec ins (ForEachSubcolumn callback) c = forEachSubcolumn callback c"
| "perform dflt dec ins (ApplyNullMapOfColumn other) c = applyNullMap_of_column other c"
| "perform dflt dec ins (ApplyNullMap other) c = applyNullMap other c"
| "perform dflt dec ins (ApplyNegatedNullMap other) c = applyNegatedNullMap other c"

fun perform_all ::
  "'v \<Rightarrow> (Arena \<Rightarrow> nat \<Rightarrow> ('v \<times> nat) option) \<Rightarrow> (UInt8 list \<Rightarrow> 'v) \<Rightarrow> 'v operation list
     \<Rightarrow> 'v ColumnNullable \<Rightarrow> error + 'v ColumnNullable" where
  "perform_all dflt dec ins [] c = Inr c"
| "perform_all dflt dec ins (op # ops) c =
     (case perform dflt dec ins op c of
        Inl e \<Rightarrow> Inl e
      | Inr c' \<Rightarrow> perform_all dflt dec ins ops c')"

text \<open>
  A visitor handed to \<^verbatim>\<open>forEachSubcolumn\<close> keeps the rows when each of the two
  sub-columns it is given has as many rows afterwards as before; \<open>visitors_keep_rows\<close>
  says so of every \<^verbatim>\<open>forEachSubcolumn\<close> along a sequence of operations.
\<close>

fun visitor_keeps_rows :: "'v operation \<Rightarrow> 'v ColumnNullable \<Rightarrow> bool" where
  "visitor_keeps_rows (ForEachSubcolumn callback) c \<longleftrightarrow>
     subcolumn_size (callback (NestedColumn (nested_column c))) = nested_size (nested_column c)
     \<and> subcolumn_size (callback (NullMapColumn (null_map c))) = length (null_map c)"
| "visitor_keeps_rows _ c \<longleftrightarrow> True"

fun visitors_keep_rows ::
  "'v \<Rightarrow> (Arena \<Rightarrow> nat \<Rightarrow> ('v \<times> nat) option) \<Rightarrow> (UInt8 list \<Rightarrow> 'v) \<Rightarrow> 'v operation list
     \<Rightarrow> 'v ColumnNullable \<Rightarrow> bool" where
  "visitors_keep_rows dflt dec ins [] c \<longleftrightarrow> True"
| "visitors_keep_rows dflt dec ins (op # ops) c \<longleftrightarrow>
     visitor_keeps_rows op c
     \<and> (case perform dflt dec ins op c of
          Inl e \<Rightarrow> True
        | Inr c' \<Rightarrow> visitors_keep_rows dflt dec ins ops c')"

subsection \<open>Notions the properties are stated with\<close>

text \<open>The number of truthy entries of a mask, and the rows a mask keeps, in order.\<close>

definition count_true :: "UInt8 list \<Rightarrow> nat" where
  "count_true filt = length (filter (\<lambda>b. b \<noteq> 0) filt)"

definition kept_rows :: "UInt8 list \<Rightarrow> nat list" where
  "kept_rows filt = filter (\<lambda>i. filt ! i \<noteq> 0) [0..<length filt]"

text \<open>A permutation of all \<open>n\<close> rows: every row index below \<open>n\<close>, each exactly once.\<close>

definition is_permutation :: "nat list \<Rightarrow> nat \<Rightarrow> bool" where
  "is_permutation perm n \<longleftrightarrow> length perm = n \<and> distinct perm \<and> list_all (\<lambda>i. i < n) perm"

text \<open>
  The \<open>(isNullAt, value)\<close> pair of a row: whether the row is null and, for a row that is
  not null, its value in the nested store. The payload of a null row is padding and is not
  part of the pair.
\<close>

definition row_at :: "'v ColumnNullable \<Rightarrow> nat \<Rightarrow> 'v Field option" where
  "row_at c n =
     (case isNullAt c n of
        None \<Rightarrow> None
      | Some is_null \<Rightarrow>
          if is_null then Some Null else map_option Value (element_at (nested_column c) n))"

section \<open>Properties of the header's operations\<close>

lemma checkConsistency_iff:
  "checkConsistency c = Inr () \<longleftrightarrow> length (null_map c) = length (nested_column c)"
  by (simp add: checkConsistency_def nested_size_def)

lemma isNullAt_in_range:
  "n < length (null_map c) \<Longrightarrow> isNullAt c n = Some (null_map c ! n \<noteq> 0)"
  by (simp add: isNullAt_def element_at_def)

text \<open>
  C6. \<^verbatim>\<open>insertDefault()\<close> appends the nested store's default value to the nested column
  and the byte 1 to the null map. On the empty column the size becomes 1, row 0 is null,
  and the underlying value of row 0 is the nested store's default.
\<close>

theorem insertDefault_appends_null_default:
  "nested_column (insertDefault dflt c) = nested_column c @ [dflt]
   \<and> null_map (insertDefault dflt c) = null_map c @ [1]
   \<and> size_col (insertDefault dflt c) = size_col c + 1
   \<and> size_col (insertDefault dflt empty_column) = 1
   \<and> isNullAt (insertDefault dflt empty_column) 0 = Some True
   \<and> element_at (nested_column (insertDefault dflt empty_column)) 0 = Some dflt"
  by (simp add: insertDefault_def nested_insertDefault_def size_col_def nested_size_def
      empty_column_def isNullAt_def element_at_def)

text \<open>
  C7. On a column whose two vectors have the same length (the data model's invariant),
  for every row with \<open>row < size()\<close> the read of the null map is in bounds, and
  \<^verbatim>\<open>isNullAt(row)\<close> is true exactly when the byte of the null map at \<open>row\<close> is not zero.
\<close>

theorem isNullAt_iff_byte_nonzero:
  assumes "checkConsistency c = Inr ()" and "row < size_col c"
  shows "row < length (null_map c) \<and> isNullAt c row = Some (null_map c ! row \<noteq> 0)"
  using assms
  by (simp add: checkConsistency_iff size_col_def nested_size_def isNullAt_in_range)

theorem isNullAt_iff_byte_nonzero_witness:
  "checkConsistency \<lparr>nested_column = [5, 7 :: int], null_map = [0, 2]\<rparr> = Inr ()
   \<and> 1 < size_col \<lparr>nested_column = [5, 7 :: int], null_map = [0, 2]\<rparr>
   \<and> isNullAt \<lparr>nested_column = [5, 7 :: int], null_map = [0, 2]\<rparr> 1 = Some True
   \<and> isNullAt \<lparr>nested_column = [5, 7 :: int], null_map = [0, 2]\<rparr> 0 = Some False"
  using isNullAt_iff_byte_nonzero [of "\<lparr>nested_column = [5, 7 :: int], null_map = [0, 2]\<rparr>" 1]
    isNullAt_iff_byte_nonzero [of "\<lparr>nested_column = [5, 7 :: int], null_map = [0, 2]\<rparr>" 0]
  by (simp add: checkConsistency_def size_col_def nested_size_def)

text \<open>
  C8. \<^verbatim>\<open>structureEquals(rhs)\<close> is true exactly when \<open>rhs\<close> is a nullable wrapper and the
  nested column of this column is structurally equal to the nested column of \<open>rhs\<close>;
  replacing the null map of either column by any other null map leaves the result as it is.
\<close>

theorem structureEquals_iff_nested:
  "(structureEquals se c rhs
      \<longleftrightarrow> (\<exists>r. rhs = Nullable r \<and> se (nested_column c) (nested_column r)))
   \<and> structureEquals se (c\<lparr>null_map := m\<rparr>) (Nullable (r'\<lparr>null_map := m'\<rparr>))
       = structureEquals se c (Nullable r')
   \<and> structureEquals se (c\<lparr>null_map := m\<rparr>) (NotNullable xs) = False"
  by (cases rhs) (simp_all add: structureEquals_def)

text \<open>
  C9. For every valid row \<open>n\<close> (of a column whose two vectors have the same length),
  \<^verbatim>\<open>getDataAt(n)\<close> is the sentinel \<^verbatim>\<open>EMPTY_STRING_REF\<close> when \<^verbatim>\<open>isNullAt(n)\<close> is true, and
  the nested column's \<^verbatim>\<open>getDataAt(n)\<close> when it is false.
\<close>

theorem getDataAt_null_or_nested:
  assumes "checkConsistency c = Inr ()" and "n < size_col c"
  shows "(isNullAt c n = Some True \<and> getDataAt E nested_getDataAt c n = Some E)
       \<or> (isNullAt c n = Some False
            \<and> getDataAt E nested_getDataAt c n = Some (nested_getDataAt (nested_column c) n))"
proof -
  from assms have "n < length (null_map c)"
    by (simp add: checkConsistency_iff size_col_def nested_size_def)
  then have "isNullAt c n = Some (null_map c ! n \<noteq> 0)"
    by (rule isNullAt_in_range)
  then show ?thesis
    by (cases "null_map c ! n = 0") (simp_all add: getDataAt_def)
qed

theorem getDataAt_null_or_nested_witness:
  "checkConsistency \<lparr>nested_column = [''ab'', ''cd''], null_map = [0, 1]\<rparr> = Inr ()
   \<and> 1 < size_col \<lparr>nested_column = [''ab'', ''cd''], null_map = [0, 1]\<rparr>
   \<and> getDataAt ''EMPTY'' (\<lambda>xs i. xs ! i)
        \<lparr>nested_column = [''ab'', ''cd''], null_map = [0, 1]\<rparr> 1 = Some ''EMPTY''
   \<and> getDataAt ''EMPTY'' (\<lambda>xs i. xs ! i)
        \<lparr>nested_column = [''ab'', ''cd''], null_map = [0, 1]\<rparr> 0 = Some ''ab''"
  using getDataAt_null_or_nested
      [of "\<lparr>nested_column = [''ab'', ''cd''], null_map = [0, 1]\<rparr>" 1 "''EMPTY''" "\<lambda>xs i. xs ! i"]
    getDataAt_null_or_nested
      [of "\<lparr>nested_column = [''ab'', ''cd''], null_map = [0, 1]\<rparr>" 0 "''EMPTY''" "\<lambda>xs i. xs ! i"]
  by (simp add: checkConsistency_def size_col_def nested_size_def isNullAt_def element_at_def)

text \<open>
  C10. \<^verbatim>\<open>get64(n)\<close> is the nested column's \<^verbatim>\<open>get64(n)\<close> whatever the null map holds: on
  a null row it is the nested store's payload of that row. \<^verbatim>\<open>getBool(n)\<close> reads the
  null map and is false on every null row (and the nested column's \<^verbatim>\<open>getBool(n)\<close> on a
  row that is not null).
\<close>

theorem get64_ignores_null_map_getBool_checks:
  assumes "checkConsistency c = Inr ()" and "n < size_col c"
  shows "get64 nested_get64 c n = nested_get64 (nested_column c) n
       \<and> get64 nested_get64 (c\<lparr>null_map := m\<rparr>) n = get64 nested_get64 c n
       \<and> (isNullAt c n = Some True \<and> getBool nested_getBool c n = Some False
          \<or> isNullAt c n = Some False
            \<and> getBool nested_getBool c n = Some (nested_getBool (nested_column c) n))"
proof -
  from assms have "n < length (null_map c)"
    by (simp add: checkConsistency_iff size_col_def nested_size_def)
  then have "isNullAt c n = Some (null_map c ! n \<noteq> 0)"
    by (rule isNullAt_in_range)
  then show ?thesis
    by (cases "null_map c ! n = 0") (simp_all add: getBool_def get64_def)
qed

theorem get64_ignores_null_map_getBool_checks_witness:
  "checkConsistency \<lparr>nested_column = [5, 7 :: nat], null_map = [0, 1]\<rparr> = Inr ()
   \<and> 1 < size_col \<lparr>nested_column = [5, 7 :: nat], null_map = [0, 1]\<rparr>
   \<and> isNullAt \<lparr>nested_column = [5, 7 :: nat], null_map = [0, 1]\<rparr> 1 = Some True
   \<and> get64 (\<lambda>xs i. of_nat (xs ! i)) \<lparr>nested_column = [5, 7 :: nat], null_map = [0, 1]\<rparr> 1 = 7
   \<and> getBool (\<lambda>xs i. xs ! i \<noteq> 0) \<lparr>nested_column = [5, 7 :: nat], null_map = [0, 1]\<rparr> 1
       = Some False
   \<and> getBool (\<lambda>xs i. xs ! i \<noteq> 0) \<lparr>nested_column = [5, 7 :: nat], null_map = [0, 1]\<rparr> 0
       = Some True"
  using get64_ignores_null_map_getBool_checks
      [of "\<lparr>nested_column = [5, 7 :: nat], null_map = [0, 1]\<rparr>" 1
          "\<lambda>xs i. of_nat (xs ! i)" "[]" "\<lambda>xs i. xs ! i \<noteq> 0"]
    get64_ignores_null_map_getBool_checks
      [of "\<lparr>nested_column = [5, 7 :: nat], null_map = [0, 1]\<rparr>" 0
          "\<lambda>xs i. of_nat (xs ! i)" "[]" "\<lambda>xs i. xs ! i \<noteq> 0"]
  by (simp add: checkConsistency_def size_col_def nested_size_def isNullAt_def element_at_def)

section \<open>Properties of the operations defined outside the sources\<close>

subsection \<open>Applying an external null map\<close>

text \<open>
  C5. On a column whose two vectors have the same length, \<^verbatim>\<open>applyNullMap\<close> with an
  external map of the column's length succeeds, leaves the nested store as it is and
  replaces every byte of the null map by its OR with the byte of the external map, so that
  a row is null afterwards exactly when it was null or the external byte is not zero;
  \<^verbatim>\<open>applyNegatedNullMap\<close> does the same with the logical negation of the external byte,
  so that a row is null afterwards exactly when it was null or the external byte is zero.
  With an external map of another length both fail with the size-mismatch error. The
  external map \<open>[0,1,0]\<close> on the null map \<open>[0,0,1]\<close> gives \<open>[0,1,1]\<close>.
\<close>

theorem applyNullMap_or_of_maps:
  assumes "checkConsistency c = Inr ()"
  shows "(length other = size_col c \<longrightarrow>
           (\<exists>c' c''. applyNullMap other c = Inr c'
              \<and> applyNegatedNullMap other c = Inr c''
              \<and> nested_column c' = nested_column c
              \<and> nested_column c'' = nested_column c
              \<and> length (null_map c') = size_col c
              \<and> length (null_map c'') = size_col c
              \<and> (\<forall>i < size_col c.
                    null_map c' ! i = null_map c ! i OR other ! i
                  \<and> null_map c'' ! i = null_map c ! i OR logical_not (other ! i)
                  \<and> isNullAt c' i = Some (null_map c ! i \<noteq> 0 \<or> other ! i \<noteq> 0)
                  \<and> isNullAt c'' i = Some (null_map c ! i \<noteq> 0 \<or> other ! i = 0))))
       \<and> (length other \<noteq> size_col c \<longrightarrow>
            applyNullMap other c = Inl SizeMismatch
          \<and> applyNegatedNullMap other c = Inl SizeMismatch)
       \<and> applyNullMap [0, 1, 0] \<lparr>nested_column = [x, y, z], null_map = [0, 0, 1]\<rparr>
           = Inr \<lparr>nested_column = [x, y, z], null_map = [0, 1, 1]\<rparr>"
proof -
  from assms have len: "length (null_map c) = size_col c"
    by (simp add: checkConsistency_iff size_col_def nested_size_def)
  have ok: "length other = size_col c \<longrightarrow>
           (\<exists>c' c''. applyNullMap other c = Inr c'
              \<and> applyNegatedNullMap other c = Inr c''
              \<and> nested_column c' = nested_column c
              \<and> nested_column c'' = nested_column c
              \<and> length (null_map c') = size_col c
              \<and> length (null_map c'') = size_col c
              \<and> (\<forall>i < size_col c.
                    null_map c' ! i = null_map c ! i OR other ! i
                  \<and> null_map c'' ! i = null_map c ! i OR logical_not (other ! i)
                  \<and> isNullAt c' i = Some (null_map c ! i \<noteq> 0 \<or> other ! i \<noteq> 0)
                  \<and> isNullAt c'' i = Some (null_map c ! i \<noteq> 0 \<or> other ! i = 0)))"
    using len
    by (simp add: applyNullMap_def applyNegatedNullMap_def applyNullMapImpl_def isNullAt_def
        element_at_def logical_not_def or_eq_0_iff)
  have bad: "length other \<noteq> size_col c \<longrightarrow>
            applyNullMap other c = Inl SizeMismatch
          \<and> applyNegatedNullMap other c = Inl SizeMismatch"
    using len by (auto simp add: applyNullMap_def applyNegatedNullMap_def applyNullMapImpl_def)
  have ex: "applyNullMap [0, 1, 0] \<lparr>nested_column = [x, y, z], null_map = [0, 0, 1]\<rparr>
           = Inr \<lparr>nested_column = [x, y, z], null_map = [0, 1, 1]\<rparr>"
    by (simp add: applyNullMap_def applyNullMapImpl_def)
  from ok bad ex show ?thesis by blast
qed


theorem applyNullMap_or_of_maps_witness:
  "checkConsistency \<lparr>nested_column = [10, 20, 30 :: int], null_map = [0, 0, 1]\<rparr> = Inr ()
   \<and> length [0, 1, 0 :: UInt8] = size_col \<lparr>nested_column = [10, 20, 30 :: int], null_map = [0, 0, 1]\<rparr>
   \<and> applyNullMap [0, 1, 0] \<lparr>nested_column = [10, 20, 30 :: int], null_map = [0, 0, 1]\<rparr>
       = Inr \<lparr>nested_column = [10, 20, 30], null_map = [0, 1, 1]\<rparr>
   \<and> applyNegatedNullMap [0, 1, 0] \<lparr>nested_column = [10, 20, 30 :: int], null_map = [0, 0, 1]\<rparr>
       = Inr \<lparr>nested_column = [10, 20, 30], null_map = [1, 0, 1]\<rparr>
   \<and> length [0, 1 :: UInt8] \<noteq> size_col \<lparr>nested_column = [10, 20, 30 :: int], null_map = [0, 0, 1]\<rparr>
   \<and> applyNullMap [0, 1] \<lparr>nested_column = [10, 20, 30 :: int], null_map = [0, 0, 1]\<rparr>
       = Inl SizeMismatch
   \<and> applyNegatedNullMap [0, 1] \<lparr>nested_column = [10, 20, 30 :: int], null_map = [0, 0, 1]\<rparr>
       = Inl SizeMismatch"
  using applyNullMap_or_of_maps
      [of "\<lparr>nested_column = [10, 20, 30 :: int], null_map = [0, 0, 1]\<rparr>" "[0, 1, 0]"]
    applyNullMap_or_of_maps
      [of "\<lparr>nested_column = [10, 20, 30 :: int], null_map = [0, 0, 1]\<rparr>" "[0, 1]"]
  by (simp add: checkConsistency_def size_col_def nested_size_def applyNullMap_def
      applyNegatedNullMap_def applyNullMapImpl_def logical_not_def)

subsection \<open>Comparison\<close>

text \<open>
  C2. For valid rows \<open>n\<close> of this column and \<open>m\<close> of the nullable column \<open>rhs\<close>,
  \<^verbatim>\<open>compareAt\<close> returns 0 when both rows are null. When exactly one row is null, the
  null row is the lesser one under a nulls-first hint and the greater one under a
  nulls-last hint, whatever the values and the comparison of the nested store are; with
  the sign of Scenario 2, the result is negative when the lesser row is the row of \<open>rhs\<close>
  and positive when it is the row of this column. When neither row is null the result is
  the nested store's comparison of the two rows.
\<close>

theorem compareAt_null_policy:
  assumes "checkConsistency c = Inr ()" and "checkConsistency rhs = Inr ()"
    and "n < size_col c" and "m < size_col rhs"
  shows "\<exists>l r res. isNullAt c n = Some l \<and> isNullAt rhs m = Some r
           \<and> compareAt direction_of nested_compareAt c n m rhs hint = Some res
           \<and> (l \<and> r \<longrightarrow> res = 0)
           \<and> (\<not> l \<and> r \<and> direction_of hint = NullsFirst \<longrightarrow> sint res < 0)
           \<and> (\<not> l \<and> r \<and> direction_of hint = NullsLast \<longrightarrow> 0 < sint res)
           \<and> (l \<and> \<not> r \<and> direction_of hint = NullsFirst \<longrightarrow> 0 < sint res)
           \<and> (l \<and> \<not> r \<and> direction_of hint = NullsLast \<longrightarrow> sint res < 0)
           \<and> (l \<noteq> r \<longrightarrow>
                 compareAt direction_of other_compareAt (c\<lparr>nested_column := xs\<rparr>) n m
                   (rhs\<lparr>nested_column := ys\<rparr>) hint = Some res)
           \<and> (\<not> l \<and> \<not> r \<longrightarrow>
                 res = nested_compareAt (nested_column c) n m (nested_column rhs) hint)"
proof -
  from assms have "n < length (null_map c)" and "m < length (null_map rhs)"
    by (simp_all add: checkConsistency_iff size_col_def nested_size_def)
  then have l: "isNullAt c n = Some (null_map c ! n \<noteq> 0)"
    and r: "isNullAt rhs m = Some (null_map rhs ! m \<noteq> 0)"
    and l': "isNullAt (c\<lparr>nested_column := xs\<rparr>) n = Some (null_map c ! n \<noteq> 0)"
    and r': "isNullAt (rhs\<lparr>nested_column := ys\<rparr>) m = Some (null_map rhs ! m \<noteq> 0)"
    by (simp_all add: isNullAt_in_range)
  show ?thesis
    unfolding compareAt_def compareAtImpl_def l r l' r'
    by (cases "direction_of hint") auto
qed

theorem compareAt_null_policy_witness:
  "checkConsistency \<lparr>nested_column = [1, 0, 3 :: int], null_map = [0, 1, 0]\<rparr> = Inr ()
   \<and> 1 < size_col \<lparr>nested_column = [1, 0, 3 :: int], null_map = [0, 1, 0]\<rparr>
   \<and> compareAt (\<lambda>h. if h = 1 then NullsLast else NullsFirst)
        (\<lambda>xs i j ys h. if xs ! i < ys ! j then - 1 else if xs ! i = ys ! j then 0 else 1)
        \<lparr>nested_column = [1, 0, 3 :: int], null_map = [0, 1, 0]\<rparr> 1 1
        \<lparr>nested_column = [1, 0, 3 :: int], null_map = [0, 1, 0]\<rparr> (- 1) = Some 0
   \<and> compareAt (\<lambda>h. if h = 1 then NullsLast else NullsFirst)
        (\<lambda>xs i j ys h. if xs ! i < ys ! j then - 1 else if xs ! i = ys ! j then 0 else 1)
        \<lparr>nested_column = [1, 0, 3 :: int], null_map = [0, 1, 0]\<rparr> 0 1
        \<lparr>nested_column = [1, 0, 3 :: int], null_map = [0, 1, 0]\<rparr> (- 1) = Some (- 1)
   \<and> sint (- 1 :: Int32) < 0
   \<and> compareAt (\<lambda>h. if h = 1 then NullsLast else NullsFirst)
        (\<lambda>xs i j ys h. if xs ! i < ys ! j then - 1 else if xs ! i = ys ! j then 0 else 1)
        \<lparr>nested_column = [1, 0, 3 :: int], null_map = [0, 1, 0]\<rparr> 0 1
        \<lparr>nested_column = [1, 0, 3 :: int], null_map = [0, 1, 0]\<rparr> 1 = Some 1
   \<and> 0 < sint (1 :: Int32)
   \<and> compareAt (\<lambda>h. if h = 1 then NullsLast else NullsFirst)
        (\<lambda>xs i j ys h. if xs ! i < ys ! j then - 1 else if xs ! i = ys ! j then 0 else 1)
        \<lparr>nested_column = [1, 0, 3 :: int], null_map = [0, 1, 0]\<rparr> 1 0
        \<lparr>nested_column = [1, 0, 3 :: int], null_map = [0, 1, 0]\<rparr> (- 1) = Some 1
   \<and> compareAt (\<lambda>h. if h = 1 then NullsLast else NullsFirst)
        (\<lambda>xs i j ys h. if xs ! i < ys ! j then - 1 else if xs ! i = ys ! j then 0 else 1)
        \<lparr>nested_column = [1, 0, 3 :: int], null_map = [0, 1, 0]\<rparr> 1 0
        \<lparr>nested_column = [1, 0, 3 :: int], null_map = [0, 1, 0]\<rparr> 1 = Some (- 1)
   \<and> compareAt (\<lambda>h. if h = 1 then NullsLast else NullsFirst)
        (\<lambda>xs i j ys h. if xs ! i < ys ! j then - 1 else if xs ! i = ys ! j then 0 else 1)
        \<lparr>nested_column = [1, 0, 3 :: int], null_map = [0, 1, 0]\<rparr> 0 2
        \<lparr>nested_column = [1, 0, 3 :: int], null_map = [0, 1, 0]\<rparr> 1 = Some (- 1)"
  using compareAt_null_policy
      [of "\<lparr>nested_column = [1, 0, 3 :: int], null_map = [0, 1, 0]\<rparr>"
          "\<lparr>nested_column = [1, 0, 3 :: int], null_map = [0, 1, 0]\<rparr>" 1 1
          "\<lambda>h. if h = 1 then NullsLast else NullsFirst"
          "\<lambda>xs i j ys h. if xs ! i < ys ! j then - 1 else if xs ! i = ys ! j then 0 else 1"
          "- 1"]
    compareAt_null_policy
      [of "\<lparr>nested_column = [1, 0, 3 :: int], null_map = [0, 1, 0]\<rparr>"
          "\<lparr>nested_column = [1, 0, 3 :: int], null_map = [0, 1, 0]\<rparr>" 0 1
          "\<lambda>h. if h = 1 then NullsLast else NullsFirst"
          "\<lambda>xs i j ys h. if xs ! i < ys ! j then - 1 else if xs ! i = ys ! j then 0 else 1"
          "- 1"]
    compareAt_null_policy
      [of "\<lparr>nested_column = [1, 0, 3 :: int], null_map = [0, 1, 0]\<rparr>"
          "\<lparr>nested_column = [1, 0, 3 :: int], null_map = [0, 1, 0]\<rparr>" 0 1
          "\<lambda>h. if h = 1 then NullsLast else NullsFirst"
          "\<lambda>xs i j ys h. if xs ! i < ys ! j then - 1 else if xs ! i = ys ! j then 0 else 1"
          1]
    compareAt_null_policy
      [of "\<lparr>nested_column = [1, 0, 3 :: int], null_map = [0, 1, 0]\<rparr>"
          "\<lparr>nested_column = [1, 0, 3 :: int], null_map = [0, 1, 0]\<rparr>" 1 0
          "\<lambda>h. if h = 1 then NullsLast else NullsFirst"
          "\<lambda>xs i j ys h. if xs ! i < ys ! j then - 1 else if xs ! i = ys ! j then 0 else 1"
          "- 1"]
    compareAt_null_policy
      [of "\<lparr>nested_column = [1, 0, 3 :: int], null_map = [0, 1, 0]\<rparr>"
          "\<lparr>nested_column = [1, 0, 3 :: int], null_map = [0, 1, 0]\<rparr>" 1 0
          "\<lambda>h. if h = 1 then NullsLast else NullsFirst"
          "\<lambda>xs i j ys h. if xs ! i < ys ! j then - 1 else if xs ! i = ys ! j then 0 else 1"
          1]
    compareAt_null_policy
      [of "\<lparr>nested_column = [1, 0, 3 :: int], null_map = [0, 1, 0]\<rparr>"
          "\<lparr>nested_column = [1, 0, 3 :: int], null_map = [0, 1, 0]\<rparr>" 0 2
          "\<lambda>h. if h = 1 then NullsLast else NullsFirst"
          "\<lambda>xs i j ys h. if xs ! i < ys ! j then - 1 else if xs ! i = ys ! j then 0 else 1"
          1]
  by (simp add: checkConsistency_def size_col_def nested_size_def compareAt_def
      compareAtImpl_def isNullAt_def element_at_def)

subsection \<open>Serialization round trip\<close>

text \<open>
  C3. For a valid row \<open>r\<close>, null or not, \<^verbatim>\<open>serializeValueIntoArena\<close> appends to the
  arena the null-map byte of the row followed, only when the row is not null, by the nested
  store's serialization of the value. \<^verbatim>\<open>deserializeAndInsertFromArena\<close> at the returned
  position then appends one row to the destination column and returns the position after
  the written span; the new row has the \<^verbatim>\<open>isNullAt\<close> of row \<open>r\<close> and the same
  \<open>(isNullAt, value)\<close> pair: the value of row \<open>r\<close> when it is not null, and a default
  value marked null when it is. The nested store's decoder is assumed to invert its
  encoder on the bytes written for this row.
\<close>

theorem serialize_deserialize_roundtrip:
  assumes "checkConsistency c = Inr ()" and "r < size_col c" and "checkConsistency dst = Inr ()"
    and codec: "null_map c ! r = 0 \<longrightarrow>
      dec (arena @ [0] @ enc (nested_column c) r) (length arena + 1)
        = Some (nested_column c ! r, length arena + 1 + length (enc (nested_column c) r))"
  shows "\<exists>start len arena' dst'.
      serializeValueIntoArena enc c r arena = Inr ((start, len), arena')
    \<and> start = length arena
    \<and> arena' = arena @ (null_map c ! r
                          # (if null_map c ! r \<noteq> 0 then [] else enc (nested_column c) r))
    \<and> length arena' = start + len
    \<and> deserializeAndInsertFromArena dflt dec dst arena' start = Inr (dst', start + len)
    \<and> size_col dst' = size_col dst + 1
    \<and> checkConsistency dst' = Inr ()
    \<and> take (size_col dst) (nested_column dst') = nested_column dst
    \<and> take (size_col dst) (null_map dst') = null_map dst
    \<and> isNullAt dst' (size_col dst) = isNullAt c r
    \<and> row_at dst' (size_col dst) = row_at c r
    \<and> (isNullAt c r = Some True \<longrightarrow>
          element_at (nested_column dst') (size_col dst) = Some dflt)
    \<and> (isNullAt c r = Some False \<longrightarrow>
          element_at (nested_column dst') (size_col dst) = Some (nested_column c ! r))"
proof -
  from assms have r: "r < length (null_map c)" "r < length (nested_column c)"
    and d: "length (null_map dst) = length (nested_column dst)"
    by (simp_all add: checkConsistency_iff size_col_def nested_size_def)
  show ?thesis
  proof (cases "null_map c ! r = 0")
    case True
    with codec have dec: "dec (arena @ 0 # enc (nested_column c) r) (Suc (length arena))
        = Some (nested_column c ! r, Suc (length arena + length (enc (nested_column c) r)))"
      by simp
    from True r d dec show ?thesis
      by (simp add: serializeValueIntoArena_def deserializeAndInsertFromArena_def element_at_def
          isNullAt_def row_at_def size_col_def nested_size_def checkConsistency_def
          nth_append Let_def)
  next
    case False
    with r d show ?thesis
      by (simp add: serializeValueIntoArena_def deserializeAndInsertFromArena_def element_at_def
          isNullAt_def row_at_def size_col_def nested_size_def checkConsistency_def
          nested_insertDefault_def nth_append)
  qed
qed

theorem serialize_deserialize_roundtrip_witness:
  "checkConsistency \<lparr>nested_column = [7, 9 :: UInt8], null_map = [0, 1]\<rparr> = Inr ()
   \<and> 1 < size_col \<lparr>nested_column = [7, 9 :: UInt8], null_map = [0, 1]\<rparr>
   \<and> checkConsistency \<lparr>nested_column = [4 :: UInt8], null_map = [0]\<rparr> = Inr ()
   \<and> (\<lambda>a p. if p < length a then Some (a ! p, p + 1) else None) ([5] @ [0] @ [7 :: UInt8]) 2
       = Some (7, 3)
   \<and> serializeValueIntoArena (\<lambda>xs i. [xs ! i])
        \<lparr>nested_column = [7, 9 :: UInt8], null_map = [0, 1]\<rparr> 0 [5] = Inr ((1, 2), [5, 0, 7])
   \<and> deserializeAndInsertFromArena 0
        (\<lambda>a p. if p < length a then Some (a ! p, p + 1) else None)
        \<lparr>nested_column = [4 :: UInt8], null_map = [0]\<rparr> [5, 0, 7] 1
       = Inr (\<lparr>nested_column = [4, 7], null_map = [0, 0]\<rparr>, 3)
   \<and> serializeValueIntoArena (\<lambda>xs i. [xs ! i])
        \<lparr>nested_column = [7, 9 :: UInt8], null_map = [0, 1]\<rparr> 1 [5] = Inr ((1, 1), [5, 1])
   \<and> deserializeAndInsertFromArena 0
        (\<lambda>a p. if p < length a then Some (a ! p, p + 1) else None)
        \<lparr>nested_column = [4 :: UInt8], null_map = [0]\<rparr> [5, 1] 1
       = Inr (\<lparr>nested_column = [4, 0], null_map = [0, 1]\<rparr>, 2)
   \<and> row_at \<lparr>nested_column = [4, 0 :: UInt8], null_map = [0, 1]\<rparr> 1
       = row_at \<lparr>nested_column = [7, 9 :: UInt8], null_map = [0, 1]\<rparr> 1"
  using serialize_deserialize_roundtrip
      [of "\<lparr>nested_column = [7, 9 :: UInt8], null_map = [0, 1]\<rparr>" 0
          "\<lparr>nested_column = [4 :: UInt8], null_map = [0]\<rparr>"
          "\<lambda>a p. if p < length a then Some (a ! p, p + 1) else None" "[5]"
          "\<lambda>xs i. [xs ! i]" 0]
    serialize_deserialize_roundtrip
      [of "\<lparr>nested_column = [7, 9 :: UInt8], null_map = [0, 1]\<rparr>" 1
          "\<lparr>nested_column = [4 :: UInt8], null_map = [0]\<rparr>"
          "\<lambda>a p. if p < length a then Some (a ! p, p + 1) else None" "[5]"
          "\<lambda>xs i. [xs ! i]" 0]
  by (simp add: checkConsistency_def size_col_def nested_size_def serializeValueIntoArena_def
      deserializeAndInsertFromArena_def element_at_def nested_insertDefault_def row_at_def
      isNullAt_def)

subsection \<open>Filter and permute\<close>

lemma kept_rows_Cons:
  "kept_rows (f # filt) = (if f \<noteq> 0 then [0] else []) @ map Suc (kept_rows filt)"
proof -
  have "[0..<length (f # filt)] = 0 # map Suc [0..<length filt]"
    by (simp add: upt_conv_Cons map_Suc_upt del: upt_Suc)
  then show ?thesis
    by (simp add: kept_rows_def filter_map comp_def)
qed

lemma kept_rows_Nil: "kept_rows [] = []"
  by (simp add: kept_rows_def)

lemma filter_rows_kept_rows:
  "length filt = length xs \<Longrightarrow> filter_rows filt xs = map (\<lambda>i. xs ! i) (kept_rows filt)"
proof (induction filt arbitrary: xs)
  case Nil
  then show ?case by (simp add: kept_rows_Nil)
next
  case (Cons f filt)
  then obtain y ys where xs: "xs = y # ys" and len: "length filt = length ys"
    by (cases xs) auto
  from Cons.IH [OF len] show ?case
    by (simp add: xs kept_rows_Cons comp_def)
qed

lemma length_kept_rows: "length (kept_rows filt) = count_true filt"
  by (induction filt) (simp_all add: kept_rows_Nil kept_rows_Cons count_true_def)

lemma kept_rows_nth:
  assumes "k < length (kept_rows filt)"
  shows "kept_rows filt ! k < length filt \<and> filt ! (kept_rows filt ! k) \<noteq> 0"
proof -
  from assms have "kept_rows filt ! k \<in> set (kept_rows filt)"
    by (rule nth_mem)
  then show ?thesis
    by (simp add: kept_rows_def)
qed

lemma permute_rows_all:
  assumes "is_permutation perm (length xs)"
  shows "permute_rows perm 0 xs = Inr (map (\<lambda>i. xs ! i) perm)"
  using assms by (simp add: permute_rows_def is_permutation_def)

text \<open>
  C4. On a column whose two vectors have the same length and a mask of the column's length,
  \<^verbatim>\<open>filter\<close> returns a column whose size is the number of truthy entries of the mask;
  destination row \<open>k\<close> is the \<open>k\<close>-th row the mask keeps, with the \<^verbatim>\<open>isNullAt\<close> and
  the nested value of that source row, and the result is the same for every size hint.
  For a permutation of all rows, \<^verbatim>\<open>permute(perm, 0)\<close> returns a column of the size of the
  input whose row \<open>k\<close> has the \<^verbatim>\<open>isNullAt\<close> and the nested value of source row
  \<open>perm[k]\<close>.
\<close>

theorem filter_permute_preserve_rows:
  assumes "checkConsistency c = Inr ()"
  shows "(length filt = size_col c \<longrightarrow>
           (\<exists>c'. filter_col filt hint c = Inr c'
              \<and> filter_col filt hint' c = Inr c'
              \<and> checkConsistency c' = Inr ()
              \<and> size_col c' = count_true filt
              \<and> size_col c' = length (kept_rows filt)
              \<and> (\<forall>k < size_col c'.
                    kept_rows filt ! k < size_col c
                  \<and> filt ! (kept_rows filt ! k) \<noteq> 0
                  \<and> isNullAt c' k = isNullAt c (kept_rows filt ! k)
                  \<and> element_at (nested_column c') k
                      = element_at (nested_column c) (kept_rows filt ! k))))
       \<and> (is_permutation perm (size_col c) \<longrightarrow>
           (\<exists>c'. permute perm 0 c = Inr c'
              \<and> checkConsistency c' = Inr ()
              \<and> size_col c' = size_col c
              \<and> (\<forall>k < size_col c.
                    perm ! k < size_col c
                  \<and> isNullAt c' k = isNullAt c (perm ! k)
                  \<and> element_at (nested_column c') k
                      = element_at (nested_column c) (perm ! k))))"
proof (intro conjI impI)
  assume len: "length filt = size_col c"
  let ?c' = "\<lparr>nested_column = filter_rows filt (nested_column c),
              null_map = filter_rows filt (null_map c)\<rparr>"
  from len assms have l1: "length filt = length (nested_column c)"
    and l2: "length filt = length (null_map c)"
    by (simp_all add: checkConsistency_iff size_col_def nested_size_def)
  have n: "nested_column ?c' = map (\<lambda>i. nested_column c ! i) (kept_rows filt)"
    and m: "null_map ?c' = map (\<lambda>i. null_map c ! i) (kept_rows filt)"
    using l1 l2 by (simp_all add: filter_rows_kept_rows)
  have f: "filter_col filt h c = Inr ?c'" for h
    using len l2 by (simp add: filter_col_def)
  have sz: "size_col ?c' = length (kept_rows filt)"
    using n by (simp add: size_col_def nested_size_def)
  have cons: "checkConsistency ?c' = Inr ()"
    using n m by (simp add: checkConsistency_iff)
  have rows: "kept_rows filt ! k < size_col c
                  \<and> filt ! (kept_rows filt ! k) \<noteq> 0
                  \<and> isNullAt ?c' k = isNullAt c (kept_rows filt ! k)
                  \<and> element_at (nested_column ?c') k
                      = element_at (nested_column c) (kept_rows filt ! k)"
    if "k < size_col ?c'" for k
  proof -
    from that sz have k: "k < length (kept_rows filt)" by simp
    from kept_rows_nth [OF k] have b: "kept_rows filt ! k < length filt"
      and t: "filt ! (kept_rows filt ! k) \<noteq> 0" by simp_all
    from k b t l1 l2 len show ?thesis
      unfolding n m isNullAt_def element_at_def by simp
  qed
  show "\<exists>c'. filter_col filt hint c = Inr c'
              \<and> filter_col filt hint' c = Inr c'
              \<and> checkConsistency c' = Inr ()
              \<and> size_col c' = count_true filt
              \<and> size_col c' = length (kept_rows filt)
              \<and> (\<forall>k < size_col c'.
                    kept_rows filt ! k < size_col c
                  \<and> filt ! (kept_rows filt ! k) \<noteq> 0
                  \<and> isNullAt c' k = isNullAt c (kept_rows filt ! k)
                  \<and> element_at (nested_column c') k
                      = element_at (nested_column c) (kept_rows filt ! k))"
    using f cons sz rows length_kept_rows [of filt] by (intro exI [of _ ?c']) simp
next
  assume p: "is_permutation perm (size_col c)"
  let ?c' = "\<lparr>nested_column = map (\<lambda>i. nested_column c ! i) perm,
              null_map = map (\<lambda>i. null_map c ! i) perm\<rparr>"
  from assms have l: "length (null_map c) = length (nested_column c)"
    by (simp add: checkConsistency_iff)
  from p have p1: "is_permutation perm (length (nested_column c))"
    and p2: "is_permutation perm (length (null_map c))"
    by (simp_all add: l size_col_def nested_size_def)
  have f: "permute perm 0 c = Inr ?c'"
    by (simp add: permute_def permute_rows_all [OF p1] permute_rows_all [OF p2])
  from p have plen: "length perm = size_col c"
    and pall: "\<And>k. k < length perm \<Longrightarrow> perm ! k < size_col c"
    by (simp_all add: is_permutation_def list_all_length)
  have rows: "perm ! k < size_col c
                  \<and> isNullAt ?c' k = isNullAt c (perm ! k)
                  \<and> element_at (nested_column ?c') k
                      = element_at (nested_column c) (perm ! k)"
    if "k < size_col c" for k
    using that plen pall [of k] l
    by (simp add: isNullAt_def element_at_def size_col_def nested_size_def)
  show "\<exists>c'. permute perm 0 c = Inr c'
              \<and> checkConsistency c' = Inr ()
              \<and> size_col c' = size_col c
              \<and> (\<forall>k < size_col c.
                    perm ! k < size_col c
                  \<and> isNullAt c' k = isNullAt c (perm ! k)
                  \<and> element_at (nested_column c') k
                      = element_at (nested_column c) (perm ! k))"
    using f rows plen
    by (intro exI [of _ ?c']) (simp add: checkConsistency_iff size_col_def nested_size_def)
qed

theorem filter_permute_preserve_rows_witness:
  "checkConsistency \<lparr>nested_column = [5, 2, 8 :: int], null_map = [0, 1, 0]\<rparr> = Inr ()
   \<and> length [1, 0, 3 :: UInt8] = size_col \<lparr>nested_column = [5, 2, 8 :: int], null_map = [0, 1, 0]\<rparr>
   \<and> is_permutation [2, 0, 1] (size_col \<lparr>nested_column = [5, 2, 8 :: int], null_map = [0, 1, 0]\<rparr>)
   \<and> count_true [1, 0, 3] = 2
   \<and> kept_rows [1, 0, 3] = [0, 2]
   \<and> filter_col [1, 0, 3] 0 \<lparr>nested_column = [5, 2, 8 :: int], null_map = [0, 1, 0]\<rparr>
       = Inr \<lparr>nested_column = [5, 8], null_map = [0, 0]\<rparr>
   \<and> filter_col [1, 0, 3] (- 7) \<lparr>nested_column = [5, 2, 8 :: int], null_map = [0, 1, 0]\<rparr>
       = Inr \<lparr>nested_column = [5, 8], null_map = [0, 0]\<rparr>
   \<and> permute [2, 0, 1] 0 \<lparr>nested_column = [5, 2, 8 :: int], null_map = [0, 1, 0]\<rparr>
       = Inr \<lparr>nested_column = [8, 5, 2], null_map = [0, 0, 1]\<rparr>"
  using filter_permute_preserve_rows
      [of "\<lparr>nested_column = [5, 2, 8 :: int], null_map = [0, 1, 0]\<rparr>" "[1, 0, 3]" 0 "- 7"
          "[2, 0, 1]"]
  by (simp add: checkConsistency_def size_col_def nested_size_def is_permutation_def
      count_true_def kept_rows_def filter_col_def permute_def permute_rows_def upt_rec)

subsection \<open>The length invariant\<close>

lemma length_replicate_rows:
  "length xs = length ys \<Longrightarrow>
     length (replicate_rows offsets xs) = length (replicate_rows offsets ys)"
proof (induction offsets xs arbitrary: ys rule: replicate_rows.induct)
  case (1 prev_offset off offsets x xs)
  then obtain y ys' where "ys = y # ys'" and "length xs = length ys'"
    by (cases ys) auto
  with "1.IH" [of ys'] show ?case by simp
qed simp_all

lemma length_scatter_rows:
  "length xs = length ys \<Longrightarrow>
     length (scatter_rows bucket selector xs) = length (scatter_rows bucket selector ys)"
proof (induction selector arbitrary: xs ys)
  case Nil
  then show ?case by simp
next
  case (Cons s selector)
  show ?case
  proof (cases xs)
    case Nil
    with Cons.prems show ?thesis by simp
  next
    case (Cons x xs')
    with Cons.prems obtain y ys' where "ys = y # ys'" and "length xs' = length ys'"
      by (cases ys) auto
    with Cons Cons.IH [of xs' ys'] show ?thesis by simp
  qed
qed

lemma length_permute_rows:
  assumes "permute_rows perm limit xs = Inr xs'" and "permute_rows perm limit ys = Inr ys'"
    and "length xs = length ys"
  shows "length xs' = length ys'"
  using assms by (auto simp add: permute_rows_def Let_def split: if_splits)

lemma length_index_rows:
  assumes "index_rows indexes limit xs = Inr xs'" and "index_rows indexes limit ys = Inr ys'"
  shows "length xs' = length ys'"
  using assms by (auto simp add: index_rows_def Let_def split: if_splits)

lemma length_resize_rows: "length (resize_rows filler new_size xs) = new_size"
  by (simp add: resize_rows_def)

lemma insert_col_consistent:
  "checkConsistency c = Inr () \<Longrightarrow> checkConsistency (insert_col dflt x c) = Inr ()"
  by (cases x) (simp_all add: checkConsistency_iff insert_col_def nested_insertDefault_def)

lemma insertData_consistent:
  "checkConsistency c = Inr () \<Longrightarrow> checkConsistency (insertData dflt ins pos c) = Inr ()"
  by (cases pos) (simp_all add: checkConsistency_iff insertData_def nested_insertDefault_def)

lemma insertDefault_consistent:
  "checkConsistency c = Inr () \<Longrightarrow> checkConsistency (insertDefault dflt c) = Inr ()"
  by (simp add: checkConsistency_iff insertDefault_def nested_insertDefault_def)

lemma cloneResized_consistent: "checkConsistency (cloneResized dflt new_size c) = Inr ()"
  by (simp add: checkConsistency_iff cloneResized_def length_resize_rows)

lemma compress_consistent:
  "checkConsistency c = Inr () \<Longrightarrow> checkConsistency (compress c) = Inr ()"
  by (simp add: checkConsistency_iff compress_def)

lemma insertFrom_consistent:
  assumes "checkConsistency c = Inr ()" and "insertFrom src n c = Inr c'"
  shows "checkConsistency c' = Inr ()"
  using assms
  by (auto simp add: insertFrom_def checkConsistency_iff split: option.splits)

lemma insertRangeFrom_consistent:
  assumes "checkConsistency c = Inr ()" and "insertRangeFrom src start len c = Inr c'"
  shows "checkConsistency c' = Inr ()"
  using assms
  by (auto simp add: insertRangeFrom_def checkConsistency_iff size_col_def nested_size_def
      split: if_splits)

lemma insertRangeSelective_consistent:
  assumes "checkConsistency c = Inr ()"
    and "insertRangeSelective src selector selector_start len c = Inr c'"
  shows "checkConsistency c' = Inr ()"
  using assms
  by (auto simp add: insertRangeSelective_def checkConsistency_iff Let_def split: if_splits)

lemma insertFromNotNullable_consistent:
  assumes "checkConsistency c = Inr ()" and "insertFromNotNullable src n c = Inr c'"
  shows "checkConsistency c' = Inr ()"
  using assms
  by (auto simp add: insertFromNotNullable_def checkConsistency_iff split: option.splits)

lemma insertRangeFromNotNullable_consistent:
  assumes "checkConsistency c = Inr ()"
    and "insertRangeFromNotNullable src start len c = Inr c'"
  shows "checkConsistency c' = Inr ()"
  using assms
  by (auto simp add: insertRangeFromNotNullable_def checkConsistency_iff nested_size_def
      split: if_splits)

lemma insertManyFromNotNullable_consistent:
  assumes "checkConsistency c = Inr ()"
    and "insertManyFromNotNullable src position len c = Inr c'"
  shows "checkConsistency c' = Inr ()"
  using assms
  by (auto simp add: insertManyFromNotNullable_def checkConsistency_iff split: option.splits)

lemma popBack_consistent:
  assumes "checkConsistency c = Inr ()" and "popBack n c = Inr c'"
  shows "checkConsistency c' = Inr ()"
  using assms
  by (auto simp add: popBack_def checkConsistency_iff split: if_splits)

lemma gather_consistent:
  "checkConsistency c = Inr () \<Longrightarrow> gather gatherer_stream c = Inr c'
     \<Longrightarrow> checkConsistency c' = Inr ()"
proof (induction gatherer_stream arbitrary: c)
  case Nil
  then show ?case by simp
next
  case (Cons row gatherer_stream)
  obtain src n where row: "row = (src, n)" by (cases row)
  from Cons.prems(2) obtain c1 where s: "insertFrom src n c = Inr c1"
    and r: "gather gatherer_stream c1 = Inr c'"
    by (auto simp add: row split: sum.splits)
  from insertFrom_consistent [OF Cons.prems(1) s] r show ?case
    by (rule Cons.IH)
qed

lemma filter_col_consistent:
  assumes "checkConsistency c = Inr ()" and "filter_col filt hint c = Inr c'"
  shows "checkConsistency c' = Inr ()"
proof -
  from assms(2) have l1: "length filt = length (nested_column c)"
    and l2: "length filt = length (null_map c)"
    and c': "c' = \<lparr>nested_column = filter_rows filt (nested_column c),
                   null_map = filter_rows filt (null_map c)\<rparr>"
    by (auto simp add: filter_col_def size_col_def nested_size_def split: if_splits)
  show ?thesis
    by (simp add: c' checkConsistency_iff filter_rows_kept_rows [OF l1]
        filter_rows_kept_rows [OF l2])
qed

lemma permute_consistent:
  assumes "checkConsistency c = Inr ()" and "permute perm limit c = Inr c'"
  shows "checkConsistency c' = Inr ()"
proof -
  from assms(2) obtain xs' ms' where x: "permute_rows perm limit (nested_column c) = Inr xs'"
    and m: "permute_rows perm limit (null_map c) = Inr ms'"
    and c': "c' = \<lparr>nested_column = xs', null_map = ms'\<rparr>"
    by (auto simp add: permute_def split: sum.splits)
  from assms(1) have "length (nested_column c) = length (null_map c)"
    by (simp add: checkConsistency_iff)
  from length_permute_rows [OF x m this] show ?thesis
    by (simp add: c' checkConsistency_iff)
qed

lemma index_col_consistent:
  assumes "index_col indexes limit c = Inr c'"
  shows "checkConsistency c' = Inr ()"
proof -
  from assms obtain xs' ms' where x: "index_rows indexes limit (nested_column c) = Inr xs'"
    and m: "index_rows indexes limit (null_map c) = Inr ms'"
    and c': "c' = \<lparr>nested_column = xs', null_map = ms'\<rparr>"
    by (auto simp add: index_col_def split: sum.splits)
  from length_index_rows [OF x m] show ?thesis
    by (simp add: c' checkConsistency_iff)
qed

lemma replicate_col_consistent:
  assumes "checkConsistency c = Inr ()" and "replicate_col offsets c = Inr c'"
  shows "checkConsistency c' = Inr ()"
proof -
  from assms(2) have c': "c' = \<lparr>nested_column = replicate_rows offsets (nested_column c),
                   null_map = replicate_rows offsets (null_map c)\<rparr>"
    by (auto simp add: replicate_col_def split: if_splits)
  from assms(1) have "length (null_map c) = length (nested_column c)"
    by (simp add: checkConsistency_iff)
  from length_replicate_rows [OF this] show ?thesis
    by (simp add: c' checkConsistency_iff)
qed

lemma scatter_consistent:
  assumes "checkConsistency c = Inr ()" and "scatter num_columns selector c = Inr buckets"
    and "element_at buckets bucket = Some c'"
  shows "checkConsistency c' = Inr ()"
proof -
  from assms(2) have b: "buckets = map (\<lambda>bucket.
                  \<lparr>nested_column = scatter_rows bucket selector (nested_column c),
                   null_map = scatter_rows bucket selector (null_map c)\<rparr>)
                [0..<num_columns]"
    by (auto simp add: scatter_def split: if_splits)
  from assms(3) have k: "bucket < length buckets" and c': "c' = buckets ! bucket"
    by (auto simp add: element_at_def split: if_splits)
  from k b have "bucket < num_columns" by simp
  with c' b have c'': "c' = \<lparr>nested_column = scatter_rows bucket selector (nested_column c),
                   null_map = scatter_rows bucket selector (null_map c)\<rparr>"
    by simp
  from assms(1) have "length (null_map c) = length (nested_column c)"
    by (simp add: checkConsistency_iff)
  from length_scatter_rows [OF this] show ?thesis
    by (simp add: c'' checkConsistency_iff)
qed

lemma applyNullMapImpl_consistent:
  assumes "checkConsistency c = Inr ()" and "applyNullMapImpl negative other c = Inr c'"
  shows "checkConsistency c' = Inr ()"
  using assms by (auto simp add: applyNullMapImpl_def checkConsistency_iff split: if_splits)

lemma deserializeAndInsertFromArena_consistent:
  assumes "checkConsistency c = Inr ()"
    and "deserializeAndInsertFromArena dflt dec c arena pos = Inr (c', pos')"
  shows "checkConsistency c' = Inr ()"
  using assms
  by (auto simp add: deserializeAndInsertFromArena_def checkConsistency_iff
      nested_insertDefault_def split: option.splits if_splits)

lemma forEachSubcolumn_consistent:
  assumes "checkConsistency c = Inr ()" and "forEachSubcolumn callback c = Inr c'"
    and "visitor_keeps_rows (ForEachSubcolumn callback) c"
  shows "checkConsistency c' = Inr ()"
  using assms
  by (auto simp add: forEachSubcolumn_def checkConsistency_iff nested_size_def
      split: subcolumn.splits)

lemma perform_consistent:
  assumes "checkConsistency c = Inr ()" and "perform dflt dec ins op c = Inr c'"
    and "visitor_keeps_rows op c"
  shows "checkConsistency c' = Inr ()"
proof (cases op)
  case (CloneResized new_size)
  with assms show ?thesis by (auto simp add: cloneResized_consistent)
next
  case (InsertData pos)
  with assms show ?thesis by (auto simp add: insertData_consistent)
next
  case (DeserializeAndInsertFromArena arena pos)
  with assms obtain pos' where
    "deserializeAndInsertFromArena dflt dec c arena pos = Inr (c', pos')"
    by (cases "deserializeAndInsertFromArena dflt dec c arena pos") auto
  with assms(1) show ?thesis by (rule deserializeAndInsertFromArena_consistent)
next
  case (InsertRangeFrom src start len)
  with assms show ?thesis by (auto dest: insertRangeFrom_consistent)
next
  case (InsertRangeSelective src selector selector_start len)
  with assms show ?thesis by (auto dest: insertRangeSelective_consistent)
next
  case (Insert x)
  with assms show ?thesis by (auto simp add: insert_col_consistent)
next
  case (InsertFrom src n)
  with assms show ?thesis by (auto dest: insertFrom_consistent)
next
  case (InsertFromNotNullable src n)
  with assms show ?thesis by (auto dest: insertFromNotNullable_consistent)
next
  case (InsertRangeFromNotNullable src start len)
  with assms show ?thesis by (auto dest: insertRangeFromNotNullable_consistent)
next
  case (InsertManyFromNotNullable src position len)
  with assms show ?thesis by (auto dest: insertManyFromNotNullable_consistent)
next
  case InsertDefault
  with assms show ?thesis by (auto simp add: insertDefault_consistent)
next
  case (PopBack n)
  with assms show ?thesis by (auto dest: popBack_consistent)
next
  case (Filter filt hint)
  with assms show ?thesis by (auto dest: filter_col_consistent)
next
  case (Permute perm limit)
  with assms show ?thesis by (auto dest: permute_consistent)
next
  case (Index indexes limit)
  with assms show ?thesis by (auto dest: index_col_consistent)
next
  case (Reserve n)
  with assms show ?thesis by (auto simp add: reserve_def)
next
  case Protect
  with assms show ?thesis by (auto simp add: protect_def)
next
  case (Replicate offsets)
  with assms show ?thesis by (auto dest: replicate_col_consistent)
next
  case (Scatter num_columns selector bucket)
  with assms(2) obtain buckets where "scatter num_columns selector c = Inr buckets"
    and "element_at buckets bucket = Some c'"
    by (auto split: sum.splits option.splits)
  with assms(1) show ?thesis by (rule scatter_consistent)
next
  case (Gather gatherer_stream)
  with assms show ?thesis by (auto dest: gather_consistent)
next
  case Compress
  with assms show ?thesis by (auto simp add: compress_consistent)
next
  case (ForEachSubcolumn callback)
  with assms show ?thesis by (auto dest: forEachSubcolumn_consistent)
next
  case (ApplyNullMapOfColumn other)
  with assms show ?thesis
    by (auto simp add: applyNullMap_of_column_def applyNullMap_def
        dest: applyNullMapImpl_consistent)
next
  case (ApplyNullMap other)
  with assms show ?thesis
    by (auto simp add: applyNullMap_def dest: applyNullMapImpl_consistent)
next
  case (ApplyNegatedNullMap other)
  with assms show ?thesis
    by (auto simp add: applyNegatedNullMap_def dest: applyNullMapImpl_consistent)
qed

lemma perform_all_consistent:
  "checkConsistency c = Inr () \<Longrightarrow> visitors_keep_rows dflt dec ins ops c
     \<Longrightarrow> perform_all dflt dec ins ops c = Inr c' \<Longrightarrow> checkConsistency c' = Inr ()"
proof (induction ops arbitrary: c)
  case Nil
  then show ?case by simp
next
  case (Cons op ops)
  from Cons.prems(3) obtain c1 where s: "perform dflt dec ins op c = Inr c1"
    and r: "perform_all dflt dec ins ops c1 = Inr c'"
    by (auto split: sum.splits)
  from Cons.prems(2) s have v: "visitor_keeps_rows op c"
    and vs: "visitors_keep_rows dflt dec ins ops c1"
    by simp_all
  from perform_consistent [OF Cons.prems(1) s v] vs r show ?case
    by (rule Cons.IH)
qed

text \<open>
  C1. The nested store and the null map have the same length at every observable point:
  the empty column and a column made of two vectors of one length satisfy the invariant,
  and after every sequence of successful public operations (\<^verbatim>\<open>cloneResized\<close>,
  \<^verbatim>\<open>insertData\<close>, \<^verbatim>\<open>deserializeAndInsertFromArena\<close>, \<^verbatim>\<open>insertRangeFrom\<close>,
  \<^verbatim>\<open>insertRangeSelective\<close>, \<^verbatim>\<open>insert\<close>, \<^verbatim>\<open>insertFrom\<close>, the three
  \<^verbatim>\<open>insert...FromNotNullable\<close>, \<^verbatim>\<open>insertDefault\<close>, \<^verbatim>\<open>popBack\<close>, \<^verbatim>\<open>filter\<close>,
  \<^verbatim>\<open>permute\<close>, \<^verbatim>\<open>index\<close>, \<^verbatim>\<open>reserve\<close>, \<^verbatim>\<open>protect\<close>, \<^verbatim>\<open>replicate\<close>, \<^verbatim>\<open>scatter\<close>,
  \<^verbatim>\<open>gather\<close>, \<^verbatim>\<open>compress\<close>, \<^verbatim>\<open>forEachSubcolumn\<close>, \<^verbatim>\<open>applyNullMap\<close>,
  \<^verbatim>\<open>applyNegatedNullMap\<close>) on a column that satisfies it, the resulting column satisfies
  it too and \<^verbatim>\<open>size()\<close> is the common length, provided every visitor handed to
  \<^verbatim>\<open>forEachSubcolumn\<close> leaves each of the two sub-columns with the number of rows it had.
\<close>

theorem lengths_agree_after_every_operation:
  "checkConsistency (empty_column :: 'v ColumnNullable) = Inr ()
   \<and> (length xs = length m \<longrightarrow>
        checkConsistency \<lparr>nested_column = xs :: 'v list, null_map = m\<rparr> = Inr ())
   \<and> (checkConsistency (c :: 'v ColumnNullable) = Inr ()
        \<and> visitors_keep_rows dflt dec ins ops c
        \<and> perform_all dflt dec ins ops c = Inr c' \<longrightarrow>
          checkConsistency c' = Inr ()
        \<and> length (nested_column c') = length (null_map c')
        \<and> size_col c' = length (nested_column c')
        \<and> size_col c' = length (null_map c'))"
proof (intro conjI impI)
  show "checkConsistency (empty_column :: 'v ColumnNullable) = Inr ()"
    by (simp add: checkConsistency_iff empty_column_def)
  show "checkConsistency \<lparr>nested_column = xs, null_map = m\<rparr> = Inr ()"
    if "length xs = length m"
    using that by (simp add: checkConsistency_iff)
next
  assume a: "checkConsistency c = Inr () \<and> visitors_keep_rows dflt dec ins ops c
    \<and> perform_all dflt dec ins ops c = Inr c'"
  then have c': "checkConsistency c' = Inr ()"
    by (blast intro: perform_all_consistent)
  then show "checkConsistency c' = Inr ()" .
  from c' show "length (nested_column c') = length (null_map c')"
    by (simp add: checkConsistency_iff)
  show "size_col c' = length (nested_column c')"
    by (simp add: size_col_def nested_size_def)
  from c' show "size_col c' = length (null_map c')"
    by (simp add: checkConsistency_iff size_col_def nested_size_def)
qed

theorem lengths_agree_after_every_operation_witness:
  "checkConsistency (empty_column :: UInt8 ColumnNullable) = Inr ()
   \<and> length [4, 6 :: UInt8] = length [0, 1 :: UInt8]
   \<and> checkConsistency \<lparr>nested_column = [4, 6 :: UInt8], null_map = [0, 1]\<rparr> = Inr ()
   \<and> visitors_keep_rows 0 (\<lambda>a p. if p < length a then Some (a ! p, p + 1) else None)
        (\<lambda>bytes. case bytes of [] \<Rightarrow> 0 | b # _ \<Rightarrow> b)
        [InsertDefault, Insert (Value 5), Replicate [0, 2, 3], InsertData (Some [7]),
         InsertData None, PopBack 1, Filter [0, 1, 1, 1] 0, Permute [2, 0, 1] 0,
         Index [1, 1, 2] 0, Scatter 2 [0, 1, 1] 1,
         InsertFrom \<lparr>nested_column = [9], null_map = [0]\<rparr> 0,
         InsertRangeFrom \<lparr>nested_column = [3, 4], null_map = [0, 1]\<rparr> 0 2,
         CloneResized 3,
         InsertRangeSelective \<lparr>nested_column = [3, 4], null_map = [0, 1]\<rparr> [1, 0] 0 1,
         InsertFromNotNullable [8] 0, PopBack 3, InsertRangeFromNotNullable [6, 7] 1 1,
         InsertManyFromNotNullable [2] 0 2, PopBack 3,
         Gather [(\<lparr>nested_column = [1], null_map = [0]\<rparr>, 0)],
         Reserve 10, Protect, Compress, ForEachSubcolumn (\<lambda>s. s),
         ApplyNullMapOfColumn \<lparr>nested_column = [0, 0, 0], null_map = [0, 1, 0]\<rparr>,
         ApplyNullMap [0, 0, 1], ApplyNegatedNullMap [1, 1, 1],
         DeserializeAndInsertFromArena [0, 9] 0]
        empty_column
   \<and> perform_all 0 (\<lambda>a p. if p < length a then Some (a ! p, p + 1) else None)
        (\<lambda>bytes. case bytes of [] \<Rightarrow> 0 | b # _ \<Rightarrow> b)
        [InsertDefault, Insert (Value 5), Replicate [0, 2, 3], InsertData (Some [7]),
         InsertData None, PopBack 1, Filter [0, 1, 1, 1] 0, Permute [2, 0, 1] 0,
         Index [1, 1, 2] 0, Scatter 2 [0, 1, 1] 1,
         InsertFrom \<lparr>nested_column = [9], null_map = [0]\<rparr> 0,
         InsertRangeFrom \<lparr>nested_column = [3, 4], null_map = [0, 1]\<rparr> 0 2,
         CloneResized 3,
         InsertRangeSelective \<lparr>nested_column = [3, 4], null_map = [0, 1]\<rparr> [1, 0] 0 1,
         InsertFromNotNullable [8] 0, PopBack 3, InsertRangeFromNotNullable [6, 7] 1 1,
         InsertManyFromNotNullable [2] 0 2, PopBack 3,
         Gather [(\<lparr>nested_column = [1], null_map = [0]\<rparr>, 0)],
         Reserve 10, Protect, Compress, ForEachSubcolumn (\<lambda>s. s),
         ApplyNullMapOfColumn \<lparr>nested_column = [0, 0, 0], null_map = [0, 1, 0]\<rparr>,
         ApplyNullMap [0, 0, 1], ApplyNegatedNullMap [1, 1, 1],
         DeserializeAndInsertFromArena [0, 9] 0]
        empty_column
       = Inr \<lparr>nested_column = [0, 5, 1, 9], null_map = [1, 1, 1, 0]\<rparr>
   \<and> checkConsistency \<lparr>nested_column = [0, 5, 1, 9 :: UInt8], null_map = [1, 1, 1, 0]\<rparr> = Inr ()
   \<and> size_col \<lparr>nested_column = [0, 5, 1, 9 :: UInt8], null_map = [1, 1, 1, 0]\<rparr> = 4
   \<and> replicate_col [0, 2, 3] \<lparr>nested_column = [0, 5 :: UInt8], null_map = [1, 0]\<rparr>
       = Inr \<lparr>nested_column = [0, 0, 5], null_map = [1, 1, 0]\<rparr>"
proof -
  let ?dec = "\<lambda>(a :: Arena) p. if p < length a then Some (a ! p, p + 1) else None"
  let ?ins = "\<lambda>bytes :: UInt8 list. case bytes of [] \<Rightarrow> 0 | b # _ \<Rightarrow> b"
  let ?ops = "[InsertDefault, Insert (Value 5), Replicate [0, 2, 3], InsertData (Some [7]),
         InsertData None, PopBack 1, Filter [0, 1, 1, 1] 0, Permute [2, 0, 1] 0,
         Index [1, 1, 2] 0, Scatter 2 [0, 1, 1] 1,
         InsertFrom \<lparr>nested_column = [9], null_map = [0]\<rparr> 0,
         InsertRangeFrom \<lparr>nested_column = [3, 4], null_map = [0, 1]\<rparr> 0 2,
         CloneResized 3,
         InsertRangeSelective \<lparr>nested_column = [3, 4], null_map = [0, 1]\<rparr> [1, 0] 0 1,
         InsertFromNotNullable [8] 0, PopBack 3, InsertRangeFromNotNullable [6, 7] 1 1,
         InsertManyFromNotNullable [2] 0 2, PopBack 3,
         Gather [(\<lparr>nested_column = [1], null_map = [0]\<rparr>, 0)],
         Reserve 10, Protect, Compress, ForEachSubcolumn (\<lambda>s. s),
         ApplyNullMapOfColumn \<lparr>nested_column = [0, 0, 0], null_map = [0, 1, 0]\<rparr>,
         ApplyNullMap [0, 0, 1], ApplyNegatedNullMap [1, 1, 1],
         DeserializeAndInsertFromArena [0, 9] 0] :: UInt8 operation list"
  have run: "perform_all 0 ?dec ?ins ?ops empty_column
       = Inr \<lparr>nested_column = [0, 5, 1, 9], null_map = [1, 1, 1, 0]\<rparr>"
    by code_simp
  have keep: "visitors_keep_rows 0 ?dec ?ins ?ops empty_column"
    by code_simp
  have scenario: "replicate_col [0, 2, 3] \<lparr>nested_column = [0, 5 :: UInt8], null_map = [1, 0]\<rparr>
       = Inr \<lparr>nested_column = [0, 0, 5], null_map = [1, 1, 0]\<rparr>"
    by code_simp
  from run keep scenario
    lengths_agree_after_every_operation
      [of "[4, 6 :: UInt8]" "[0, 1]" empty_column 0 ?dec ?ins ?ops
          "\<lparr>nested_column = [0, 5, 1, 9], null_map = [1, 1, 1, 0]\<rparr>"]
  show ?thesis
    by (simp add: size_col_def nested_size_def)
qed

text \<open>
  Without the proviso the invariant fails: \<^verbatim>\<open>forEachSubcolumn\<close> hands both sub-columns
  to the visitor and keeps what the visitor leaves. A visitor that empties byte columns
  turns a column of one row into one whose null map is empty: \<^verbatim>\<open>size()\<close> is 1 and
  \<^verbatim>\<open>isNullAt(0)\<close> reads past the end of the null map.
\<close>

theorem forEachSubcolumn_breaks_lengths_counterexample:
  "checkConsistency \<lparr>nested_column = [5 :: int], null_map = [0]\<rparr> = Inr ()
   \<and> forEachSubcolumn
        (\<lambda>s. case s of NestedColumn xs \<Rightarrow> NestedColumn xs | NullMapColumn bs \<Rightarrow> NullMapColumn [])
        \<lparr>nested_column = [5 :: int], null_map = [0]\<rparr>
       = Inr \<lparr>nested_column = [5], null_map = []\<rparr>
   \<and> checkConsistency \<lparr>nested_column = [5 :: int], null_map = []\<rparr> = Inl Inconsistent
   \<and> length (nested_column \<lparr>nested_column = [5 :: int], null_map = []\<rparr>)
       \<noteq> length (null_map \<lparr>nested_column = [5 :: int], null_map = []\<rparr>)
   \<and> size_col \<lparr>nested_column = [5 :: int], null_map = []\<rparr> = 1
   \<and> isNullAt \<lparr>nested_column = [5 :: int], null_map = []\<rparr> 0 = None"
  by (simp add: checkConsistency_def nested_size_def forEachSubcolumn_def size_col_def
      isNullAt_def element_at_def)

end
